theory Spec2Isabelle
  imports Complex_Main
begin

section \<open>Data model (backend/models/schemas.py)\<close>

text \<open>
  The conversation states, in the order the enum declares them.
\<close>

datatype ConversationState =
    INIT
  | ASK_PROJECT_TYPE
  | ASK_LANGUAGE_PREFERENCE
  | ASK_PROJECT_NAME_FOLDER
  | ASK_ADDITIONAL_DETAILS
  | CHECK_SYSTEM_CAPABILITIES
  | VALIDATE_INFO
  | SUMMARY_CONFIRMATION
  | PLANNING
  | EXECUTING
  | VERIFYING
  | COMPLETED
  | ERROR
  | ABORTED

definition all_states :: "ConversationState list" where
  "all_states =
     [INIT, ASK_PROJECT_TYPE, ASK_LANGUAGE_PREFERENCE, ASK_PROJECT_NAME_FOLDER,
      ASK_ADDITIONAL_DETAILS, CHECK_SYSTEM_CAPABILITIES, VALIDATE_INFO,
      SUMMARY_CONFIRMATION, PLANNING, EXECUTING, VERIFYING, COMPLETED, ERROR, ABORTED]"

datatype ProjectType = WEB_API | FRONTEND | CLI | MOBILE_APP | FULLSTACK | LIBRARY | MICROSERVICE

text \<open>
  Python values as they occur in the dictionaries and the unvalidated attributes of the
  session: pydantic does not validate on assignment, so \<open>setattr\<close> can leave any value
  in any field of the requirements.
\<close>

datatype pyval =
    PNone
  | PBool bool
  | PInt int
  | PStr string
  | PList "string list"
  | PEnum ProjectType
  | PFormat string "pyval list"

text \<open>
  \<open>PFormat\<close> is a format string with the values interpolated into it; every format
  string of the code has literal text, so the result is never empty.
\<close>

fun truthy :: "pyval \<Rightarrow> bool" where
  "truthy PNone = False"
| "truthy (PBool b) = b"
| "truthy (PInt i) = (i \<noteq> 0)"
| "truthy (PStr s) = (s \<noteq> [])"
| "truthy (PList xs) = (xs \<noteq> [])"
| "truthy (PEnum t) = True"
| "truthy (PFormat f vs) = True"

type_synonym pydict = "(string \<times> pyval) list"

text \<open>\<open>d.get(k)\<close> and \<open>d.get(k, default)\<close>.\<close>

definition dict_get :: "pydict \<Rightarrow> string \<Rightarrow> pyval" where
  "dict_get d k = (case map_of d k of None \<Rightarrow> PNone | Some v \<Rightarrow> v)"

definition dict_get_default :: "pydict \<Rightarrow> string \<Rightarrow> pyval \<Rightarrow> pyval" where
  "dict_get_default d k dflt = (case map_of d k of None \<Rightarrow> dflt | Some v \<Rightarrow> v)"

record Permission =
  perm_type :: string
  perm_scope :: string
  granted :: bool
  perm_timestamp :: int

record ProjectRequirements =
  project_type :: pyval
  language :: pyval
  framework :: pyval
  project_name :: pyval
  folder_path :: pyval
  database :: pyval
  authentication :: pyval
  testing :: pyval
  docker :: pyval
  additional_features :: pyval

definition default_requirements :: ProjectRequirements where
  "default_requirements =
     \<lparr>project_type = PNone, language = PNone, framework = PNone, project_name = PNone,
      folder_path = PNone, database = PNone, authentication = PBool False,
      testing = PBool False, docker = PBool False, additional_features = PList []\<rparr>"

record SystemCapability =
  os :: string
  shell :: string
  docker_installed :: bool
  git_installed :: bool
  available_package_managers :: "string list"
  available_runtimes :: "(string \<times> string) list"
  detection_completed :: bool

record ExecutionStep =
  command :: string
  description :: string
  working_directory :: "string option"
  fallback_command :: "string option"
  expected_output_pattern :: "string option"
  timeout :: int
  step_retry_count :: int
  requires_permission :: bool

record ExecutionPlan =
  steps :: "ExecutionStep list"
  total_steps :: int

text \<open>
  \<open>ExecutionResult\<close> without its \<open>duration\<close> (a float) and its \<open>timestamp\<close>: no
  branch of the code reads them.
\<close>

record ExecutionResult =
  step_index :: nat
  res_command :: string
  success :: bool
  stdout :: string
  stderr :: string
  exit_code :: int
  fallback_used :: bool
  res_retry_count :: int

text \<open>
  The texts the code writes into the conversation history are format strings; each
  template is a constructor, with the interpolated values as its arguments.
\<close>

datatype msg_content =
    Plain string
  | ChoiceNoted pyval pyval
  | ChoiceNotUnderstood string "string list"
  | PermissionGrantedFor pyval
  | PermissionDeniedMsg
  | EncounteredError string

record message =
  role :: string
  content :: msg_content
  msg_timestamp :: int

text \<open>
  An entry of \<open>function_results\<close>: the registry appends a dictionary with the keys
  name, args, result, timestamp; the orchestrator one with the keys name, status,
  timestamp, result.
\<close>

datatype function_result =
    RegistryEntry pyval pydict pydict int
  | AgentEntry pyval pyval int pydict

fun entry_status :: "function_result \<Rightarrow> pyval" where
  "entry_status (RegistryEntry n a r t) = PNone"
| "entry_status (AgentEntry n st t r) = st"

fun entry_name :: "function_result \<Rightarrow> pyval" where
  "entry_name (RegistryEntry n a r t) = n"
| "entry_name (AgentEntry n st t r) = n"

record state_change =
  sc_from :: ConversationState
  sc_to :: string
  sc_reason :: pyval
  sc_timestamp :: int

text \<open>
  \<open>completion_percentage\<close> is a float in the source; the code writes the values
  \<open>completed / 4 * 100\<close> and \<open>0.0\<close> and compares with 80 and 100 only, which
  rationals represent exactly. Times are seconds on the clock of \<open>datetime.now()\<close>.
\<close>

record SessionState =
  session_id :: string
  current_state :: ConversationState
  requirements :: ProjectRequirements
  capabilities :: "SystemCapability option"
  permissions :: "(string \<times> Permission) list"
  execution_plan :: "ExecutionPlan option"
  execution_results :: "ExecutionResult list"
  conversation_history :: "message list"
  pending_question :: "pydict option"
  waiting_for_user :: bool
  completion_percentage :: rat
  error_message :: "string option"
  function_results :: "function_result list"
  capabilities_detected :: bool
  validation_completed :: bool
  should_regenerate_steps :: bool
  state_history :: "state_change list"
  created_at :: int
  updated_at :: int
  iteration_count :: int
  state_version :: int

text \<open>\<open>SessionState.add_message\<close> and \<open>SessionState.update_state\<close>; \<open>now\<close> is the clock.\<close>

definition add_message :: "int \<Rightarrow> string \<Rightarrow> msg_content \<Rightarrow> SessionState \<Rightarrow> SessionState" where
  "add_message now r c s =
     s\<lparr>conversation_history :=
         conversation_history s @ [\<lparr>role = r, content = c, msg_timestamp = now\<rparr>],
       updated_at := now\<rparr>"

definition update_state :: "int \<Rightarrow> ConversationState \<Rightarrow> SessionState \<Rightarrow> SessionState" where
  "update_state now new_state s =
     s\<lparr>current_state := new_state, updated_at := now,
       iteration_count := iteration_count s + 1\<rparr>"

section \<open>Conversation state machine (backend/core/state_machine.py)\<close>

text \<open>
  A transition has a source, a target and an optional condition; no transition of the
  table carries an action.
\<close>

record StateTransition =
  from_state :: ConversationState
  to_state :: ConversationState
  condition :: "(SessionState \<Rightarrow> bool) option"

definition can_transition :: "StateTransition \<Rightarrow> SessionState \<Rightarrow> bool" where
  "can_transition t s =
     (if current_state s \<noteq> from_state t then False
      else case condition t of Some c \<Rightarrow> c s | None \<Rightarrow> True)"

definition execute_transition :: "int \<Rightarrow> StateTransition \<Rightarrow> SessionState \<Rightarrow> SessionState" where
  "execute_transition now t s = update_state now (to_state t) s"

definition error_transitions :: "ConversationState \<Rightarrow> StateTransition list" where
  "error_transitions st =
     (if st \<notin> set [ERROR, ABORTED]
      then [\<lparr>from_state = st, to_state = ERROR,
              condition = Some (\<lambda>s. error_message s \<noteq> None)\<rparr>,
            \<lparr>from_state = st, to_state = ABORTED, condition = None\<rparr>]
      else [])"

text \<open>\<open>_setup_transitions\<close>: the table in registration order.\<close>

definition transitions :: "StateTransition list" where
  "transitions =
     [\<lparr>from_state = INIT, to_state = ASK_PROJECT_TYPE, condition = None\<rparr>,
      \<lparr>from_state = ASK_PROJECT_TYPE, to_state = ASK_PROJECT_NAME_FOLDER,
        condition = Some (\<lambda>s. project_type (requirements s) \<noteq> PNone)\<rparr>,
      \<lparr>from_state = ASK_LANGUAGE_PREFERENCE, to_state = ASK_PROJECT_NAME_FOLDER,
        condition = Some (\<lambda>s. language (requirements s) \<noteq> PNone)\<rparr>,
      \<lparr>from_state = ASK_PROJECT_NAME_FOLDER, to_state = CHECK_SYSTEM_CAPABILITIES,
        condition = Some (\<lambda>s. project_name (requirements s) \<noteq> PNone \<and>
                                folder_path (requirements s) \<noteq> PNone \<and>
                                (database (requirements s) \<noteq> PNone \<or> True))\<rparr>,
      \<lparr>from_state = ASK_PROJECT_NAME_FOLDER, to_state = ASK_ADDITIONAL_DETAILS,
        condition = Some (\<lambda>s. project_name (requirements s) \<noteq> PNone \<and>
                                folder_path (requirements s) \<noteq> PNone \<and> False)\<rparr>,
      \<lparr>from_state = ASK_ADDITIONAL_DETAILS, to_state = CHECK_SYSTEM_CAPABILITIES,
        condition = None\<rparr>,
      \<lparr>from_state = CHECK_SYSTEM_CAPABILITIES, to_state = VALIDATE_INFO,
        condition = Some (\<lambda>s. case capabilities s of None \<Rightarrow> False
                                | Some c \<Rightarrow> detection_completed c)\<rparr>,
      \<lparr>from_state = VALIDATE_INFO, to_state = PLANNING,
        condition = Some (\<lambda>s. capabilities s \<noteq> None \<and> validation_completed s \<and>
                                completion_percentage s \<ge> 80)\<rparr>,
      \<lparr>from_state = VALIDATE_INFO, to_state = SUMMARY_CONFIRMATION,
        condition = Some (\<lambda>s. capabilities s \<noteq> None \<and> validation_completed s)\<rparr>,
      \<lparr>from_state = VALIDATE_INFO, to_state = ASK_PROJECT_TYPE,
        condition = Some (\<lambda>s. completion_percentage s < 100)\<rparr>,
      \<lparr>from_state = SUMMARY_CONFIRMATION, to_state = PLANNING, condition = None\<rparr>,
      \<lparr>from_state = PLANNING, to_state = EXECUTING,
        condition = Some (\<lambda>s. case execution_plan s of None \<Rightarrow> False
                                | Some p \<Rightarrow> length (steps p) > 0)\<rparr>,
      \<lparr>from_state = EXECUTING, to_state = VERIFYING,
        condition = Some (\<lambda>s. length (execution_results s) > 0)\<rparr>,
      \<lparr>from_state = VERIFYING, to_state = COMPLETED, condition = None\<rparr>]
     @ concat (map error_transitions all_states)"

definition get_valid_transitions :: "SessionState \<Rightarrow> StateTransition list" where
  "get_valid_transitions s = filter (\<lambda>t. can_transition t s) transitions"

text \<open>
  \<open>auto_transition\<close> takes the first valid transition and returns the new state with
  the updated session, or \<open>None\<close> and the session as it was.
\<close>

definition auto_transition ::
  "int \<Rightarrow> SessionState \<Rightarrow> ConversationState option \<times> SessionState" where
  "auto_transition now s =
     (case get_valid_transitions s of
        [] \<Rightarrow> (None, s)
      | t # ts \<Rightarrow> (let s' = execute_transition now t s in (Some (current_state s'), s')))"

text \<open>
  The step relation of \<open>auto_transition\<close>: between two calls the rest of the program
  may change every field of the session except the current state, which here only
  \<open>auto_transition\<close> moves. \<open>auto_run st envs\<close> is the sequence of states visited from
  \<open>st\<close>, where the n-th call finds the session data \<open>envs ! n\<close> (at clock value 0,
  which no condition reads).
\<close>

fun auto_run :: "ConversationState \<Rightarrow> SessionState list \<Rightarrow> ConversationState list" where
  "auto_run st [] = [st]"
| "auto_run st (e # es) =
     st # auto_run (current_state (snd (auto_transition 0 (e\<lparr>current_state := st\<rparr>)))) es"

text \<open>\<open>before a b xs\<close>: an occurrence of \<open>a\<close> in \<open>xs\<close> precedes the first \<open>b\<close>.\<close>

fun before :: "'a \<Rightarrow> 'a \<Rightarrow> 'a list \<Rightarrow> bool" where
  "before a b [] = False"
| "before a b (x # xs) = (if x = b then False else if x = a then True else before a b xs)"

definition next_state :: "ConversationState \<Rightarrow> SessionState \<Rightarrow> ConversationState" where
  "next_state st e = current_state (snd (auto_transition 0 (e\<lparr>current_state := st\<rparr>)))"

text \<open>
  A session whose data satisfies every condition on the way from INIT to COMPLETED.
\<close>

definition demo_step :: ExecutionStep where
  "demo_step =
     \<lparr>command = ''mkdir todo'', description = ''Create project directory'',
      working_directory = None, fallback_command = None, expected_output_pattern = None,
      timeout = 30, step_retry_count = 0, requires_permission = False\<rparr>"

definition demo_session :: SessionState where
  "demo_session =
     \<lparr>session_id = ''s1'', current_state = INIT,
      requirements = default_requirements\<lparr>project_type := PEnum CLI,
         language := PStr ''python'', project_name := PStr ''todo'',
         folder_path := PStr ''./todo''\<rparr>,
      capabilities = Some \<lparr>os = ''linux'', shell = ''bash'', docker_installed = False,
         git_installed = True, available_package_managers = [''pip''],
         available_runtimes = [(''python'', ''3.11'')], detection_completed = True\<rparr>,
      permissions = [],
      execution_plan = Some \<lparr>steps = [demo_step], total_steps = 1\<rparr>,
      execution_results = [\<lparr>step_index = 0, res_command = ''mkdir todo'', success = True,
         stdout = '''', stderr = '''', exit_code = 0, fallback_used = False,
         res_retry_count = 0\<rparr>],
      conversation_history = [], pending_question = None, waiting_for_user = False,
      completion_percentage = 100, error_message = None, function_results = [],
      capabilities_detected = True, validation_completed = True,
      should_regenerate_steps = False, state_history = [], created_at = 0, updated_at = 0,
      iteration_count = 0, state_version = 1\<rparr>"

section \<open>Session store (backend/core/session_manager.py)\<close>

text \<open>
  What a call can do besides returning: raise, or never return. Exceptions are values.
\<close>

datatype exn =
    ValueError string
  | TypeError string
  | AttributeError string
  | KeyError string
  | ZeroDivisionError
  | OSError string
  | SendFailed string

datatype 'a outcome = Returns 'a | Raises exn | Hangs

text \<open>
  The session directory maps a session id to the file stored for it. Reading a file
  either fails, or gives text that is not JSON, or JSON that does not validate as a
  \<open>SessionState\<close>, or a session document.
\<close>

datatype stored_file = Unreadable | NotJson | Invalid | Document SessionState

type_synonym session_dir = "string \<Rightarrow> stored_file option"

definition new_session :: "int \<Rightarrow> string \<Rightarrow> SessionState" where
  "new_session now sid =
     \<lparr>session_id = sid, current_state = INIT, requirements = default_requirements,
      capabilities = None, permissions = [], execution_plan = None, execution_results = [],
      conversation_history = [], pending_question = None, waiting_for_user = False,
      completion_percentage = 0, error_message = None, function_results = [],
      capabilities_detected = False, validation_completed = False,
      should_regenerate_steps = False, state_history = [], created_at = now,
      updated_at = now, iteration_count = 0, state_version = 1\<rparr>"

text \<open>
  \<open>save_state\<close> stamps the session, takes the per-session lock and replaces the file;
  a failed write is re-raised. \<open>held\<close> says that the calling task already holds the
  lock of this id: \<open>asyncio.Lock\<close> is not reentrant, so the call then waits for ever.
  \<open>write_ok\<close> is whether the file system accepts the write.
\<close>

definition save_state ::
  "int \<Rightarrow> bool \<Rightarrow> bool \<Rightarrow> session_dir \<Rightarrow> string \<Rightarrow> SessionState
     \<Rightarrow> (SessionState \<times> session_dir) outcome" where
  "save_state now held write_ok dir sid s =
     (let s' = s\<lparr>updated_at := now, state_version := state_version s + 1\<rparr>
      in if held then Hangs
         else if write_ok then Returns (s', dir(sid := Some (Document s')))
         else Raises (OSError ''write failed''))"

text \<open>
  \<open>create_session\<close> with a given id (an empty id is replaced by a fresh UUID, here
  the parameter \<open>uuid\<close>) and no metadata, as \<open>load_state\<close> calls it.
\<close>

definition create_session ::
  "int \<Rightarrow> bool \<Rightarrow> bool \<Rightarrow> string \<Rightarrow> session_dir \<Rightarrow> string
     \<Rightarrow> (SessionState \<times> session_dir) outcome" where
  "create_session now held write_ok uuid dir sid =
     (let sid' = (if sid = [] then uuid else sid)
      in save_state now held write_ok dir sid' (new_session now sid'))"

text \<open>
  \<open>_is_session_expired\<close>: \<open>updated_at\<close> is a \<open>datetime\<close>, which is never falsy, so
  the early \<open>return False\<close> is dead; expiry is \<open>now > updated_at + timeout\<close>.
\<close>

definition is_session_expired :: "int \<Rightarrow> int \<Rightarrow> SessionState \<Rightarrow> bool" where
  "is_session_expired now session_timeout s = (now > updated_at s + session_timeout)"

definition load_state ::
  "int \<Rightarrow> int \<Rightarrow> bool \<Rightarrow> string \<Rightarrow> session_dir \<Rightarrow> string
     \<Rightarrow> (SessionState \<times> session_dir) outcome" where
  "load_state now session_timeout write_ok uuid dir sid =
     (case dir sid of
        None \<Rightarrow> create_session now False write_ok uuid dir sid
      | Some (Document s) \<Rightarrow>
          if is_session_expired now session_timeout s
          then Returns (s\<lparr>current_state := ERROR, error_message := Some ''Session expired''\<rparr>,
                        dir)
          else Returns (s, dir)
      | Some f \<Rightarrow> create_session now True write_ok uuid dir sid)"

section \<open>Command execution engine (backend/execution/engine.py)\<close>

subsection \<open>Strings\<close>

text \<open>
  Python's \<open>str.split()\<close> without arguments cuts at runs of whitespace and drops empty
  pieces; \<open>str.strip()\<close> removes whitespace at both ends; \<open>str.lower()\<close> is modelled on
  ASCII letters, and the whitespace characters are those below code point 256.
\<close>

definition is_space :: "char \<Rightarrow> bool" where
  "is_space c = (let n = of_char c :: nat
                 in (9 \<le> n \<and> n \<le> 13) \<or> (28 \<le> n \<and> n \<le> 32) \<or> n = 133 \<or> n = 160)"

fun split_acc :: "string \<Rightarrow> string \<Rightarrow> string list" where
  "split_acc [] w = (if w = [] then [] else [w])"
| "split_acc (c # cs) w =
     (if is_space c then (if w = [] then split_acc cs [] else w # split_acc cs [])
      else split_acc cs (w @ [c]))"

definition py_split :: "string \<Rightarrow> string list" where
  "py_split s = split_acc s []"

definition py_strip :: "string \<Rightarrow> string" where
  "py_strip s = rev (dropWhile is_space (rev (dropWhile is_space s)))"

definition lower_char :: "char \<Rightarrow> char" where
  "lower_char c = (let n = of_char c :: nat
                   in if 65 \<le> n \<and> n \<le> 90 then char_of (n + 32) else c)"

definition py_lower :: "string \<Rightarrow> string" where
  "py_lower s = map lower_char s"

text \<open>\<open>s.startswith(p)\<close>, and \<open>a in b\<close> for strings.\<close>

definition starts_with :: "string \<Rightarrow> string \<Rightarrow> bool" where
  "starts_with s p = (take (length p) s = p)"

fun py_in :: "string \<Rightarrow> string \<Rightarrow> bool" where
  "py_in a [] = (a = [])"
| "py_in a (y # ys) = (starts_with (y # ys) a \<or> py_in a ys)"

fun join_with :: "string \<Rightarrow> string list \<Rightarrow> string" where
  "join_with sep [] = []"
| "join_with sep [x] = x"
| "join_with sep (x # y # ys) = x @ sep @ join_with sep (y # ys)"

fun str_nat :: "nat \<Rightarrow> string" where
  "str_nat n =
     (if n < 10 then [char_of (48 + n)] else str_nat (n div 10) @ [char_of (48 + n mod 10)])"

definition str_int :: "int \<Rightarrow> string" where
  "str_int i = (if i < 0 then CHR ''-'' # str_nat (nat (- i)) else str_nat (nat i))"

subsection \<open>The environment of a step\<close>

text \<open>
  The websocket argument is optional. Where one is attached, \<open>send_json\<close> either
  delivers the message or raises (a closed connection); a websocket is described by the
  message types it delivers. Without a websocket nothing is sent.
\<close>

type_synonym websocket = "(string \<Rightarrow> bool) option"

definition send_ok :: "websocket \<Rightarrow> string \<Rightarrow> bool" where
  "send_ok ws t = (case ws of None \<Rightarrow> True | Some delivers \<Rightarrow> delivers t)"

definition closed_websocket :: websocket where
  "closed_websocket = Some (\<lambda>t. False)"

text \<open>
  What starting and awaiting a subprocess can do: preparing the working directory or
  spawning fails with an exception (a missing binary, say); the process exits with a
  code after writing its output lines; or the timeout expires first.
\<close>

datatype proc_outcome =
    SpawnFails string
  | Exits int "string list" "string list"
  | TimesOut "string list" "string list"

text \<open>The host: command words, working directory (\<open>None\<close> for the current one) and timeout.\<close>

type_synonym host = "string list \<Rightarrow> string option \<Rightarrow> int \<Rightarrow> proc_outcome"

fun exn_message :: "exn \<Rightarrow> string" where
  "exn_message (ValueError m) = m"
| "exn_message (TypeError m) = m"
| "exn_message (AttributeError m) = m"
| "exn_message (KeyError m) = m"
| "exn_message ZeroDivisionError = ''division by zero''"
| "exn_message (OSError m) = m"
| "exn_message (SendFailed t) = ''websocket send failed: '' @ t"

subsection \<open>\<open>execute_step\<close>\<close>

definition step_cwd :: "ExecutionStep \<Rightarrow> string option" where
  "step_cwd step =
     (case working_directory step of
        None \<Rightarrow> None
      | Some d \<Rightarrow> if d = [] then None else Some d)"

definition make_result ::
  "nat \<Rightarrow> ExecutionStep \<Rightarrow> int \<Rightarrow> string list \<Rightarrow> string list \<Rightarrow> ExecutionResult" where
  "make_result idx step code out_lines err_lines =
     \<lparr>step_index = idx, res_command = command step, success = (code = 0),
      stdout = join_with [CHR 0x0A] out_lines, stderr = join_with [CHR 0x0A] err_lines,
      exit_code = code, fallback_used = False, res_retry_count = 0\<rparr>"

definition failure_result :: "nat \<Rightarrow> ExecutionStep \<Rightarrow> string \<Rightarrow> ExecutionResult" where
  "failure_result idx step error_msg =
     \<lparr>step_index = idx, res_command = command step, success = False,
      stdout = [], stderr = error_msg, exit_code = 1, fallback_used = False,
      res_retry_count = 0\<rparr>"

text \<open>
  The body of the \<open>try\<close>: \<open>Inl\<close> is an exception raised inside it. Each output line is
  forwarded as a \<open>command_output\<close> message while the process runs, and the result is
  announced as \<open>command_complete\<close>; a failing send raises there as well.
\<close>

definition finish_step ::
  "websocket \<Rightarrow> nat \<Rightarrow> ExecutionStep \<Rightarrow> int \<Rightarrow> string list \<Rightarrow> string list
     \<Rightarrow> exn + ExecutionResult" where
  "finish_step ws idx step code out_lines err_lines =
     (if send_ok ws ''command_complete''
      then Inr (make_result idx step code out_lines err_lines)
      else Inl (SendFailed ''command_complete''))"

definition execute_step_try ::
  "websocket \<Rightarrow> host \<Rightarrow> ExecutionStep \<Rightarrow> nat \<Rightarrow> exn + ExecutionResult" where
  "execute_step_try ws host step idx =
     (let cmd_parts = py_split (command step)
      in if cmd_parts = [] then Inl (ValueError ''Empty command'')
         else case host cmd_parts (step_cwd step) (timeout step) of
                SpawnFails msg \<Rightarrow> Inl (OSError msg)
              | Exits code out_lines err_lines \<Rightarrow>
                  if (out_lines \<noteq> [] \<or> err_lines \<noteq> []) \<and> \<not> send_ok ws ''command_output''
                  then Inl (SendFailed ''command_output'')
                  else finish_step ws idx step code out_lines err_lines
              | TimesOut out_lines err_lines \<Rightarrow>
                  if (out_lines \<noteq> [] \<or> err_lines \<noteq> []) \<and> \<not> send_ok ws ''command_output''
                  then Inl (SendFailed ''command_output'')
                  else finish_step ws idx step 1 out_lines
                         (err_lines @ [''Command timed out after '' @ str_int (timeout step)
                                        @ '' seconds'']))"

text \<open>
  The \<open>except Exception\<close> handler builds the failure result and then sends
  \<open>command_error\<close> outside of any \<open>try\<close>: an exception of that send leaves
  \<open>execute_step\<close>.
\<close>

definition execute_step ::
  "websocket \<Rightarrow> host \<Rightarrow> ExecutionStep \<Rightarrow> nat \<Rightarrow> ExecutionResult outcome" where
  "execute_step ws host step idx =
     (case execute_step_try ws host step idx of
        Inr result \<Rightarrow> Returns result
      | Inl e \<Rightarrow>
          if send_ok ws ''command_error''
          then Returns (failure_result idx step (exn_message e))
          else Raises (SendFailed ''command_error''))"

subsection \<open>\<open>execute_plan\<close>\<close>

definition has_fallback :: "ExecutionStep \<Rightarrow> bool" where
  "has_fallback step = (case fallback_command step of None \<Rightarrow> False | Some c \<Rightarrow> c \<noteq> [])"

definition fallback_step :: "ExecutionStep \<Rightarrow> ExecutionStep" where
  "fallback_step step =
     \<lparr>command = (case fallback_command step of None \<Rightarrow> [] | Some c \<Rightarrow> c),
      description = ''Fallback for: '' @ description step,
      working_directory = working_directory step, fallback_command = None,
      expected_output_pattern = None, timeout = timeout step, step_retry_count = 0,
      requires_permission = False\<rparr>"

text \<open>
  The loop over \<open>enumerate(execution_plan.steps)\<close>, with the results so far. The host
  may answer differently each time: \<open>hosts n\<close> is the host as the n-th call of
  \<open>execute_step\<close> in this run finds it, and that n is the number of results so far.
  \<open>_log_execution_result\<close> catches whatever it raises and changes nothing here.
\<close>

fun execute_plan_loop ::
  "websocket \<Rightarrow> (nat \<Rightarrow> host) \<Rightarrow> nat \<Rightarrow> ExecutionStep list \<Rightarrow> ExecutionResult list
     \<Rightarrow> ExecutionResult list outcome" where
  "execute_plan_loop ws hosts i [] results = Returns results"
| "execute_plan_loop ws hosts i (step # rest) results =
     (if \<not> send_ok ws ''command_start'' then Raises (SendFailed ''command_start'')
      else case execute_step ws (hosts (length results)) step i of
        Raises e \<Rightarrow> Raises e
      | Hangs \<Rightarrow> Hangs
      | Returns result \<Rightarrow>
          let results1 = results @ [result]
          in if \<not> success result \<and> \<not> has_fallback step
             then (if send_ok ws ''command_error'' then Returns results1
                   else Raises (SendFailed ''command_error''))
             else if \<not> success result \<and> has_fallback step
             then (case execute_step ws (hosts (length results1)) (fallback_step step) i of
                     Raises e \<Rightarrow> Raises e
                   | Hangs \<Rightarrow> Hangs
                   | Returns fb \<Rightarrow>
                       let fallback_result = fb\<lparr>fallback_used := True\<rparr>;
                           results2 = results1 @ [fallback_result]
                       in if \<not> success fallback_result then Returns results2
                          else execute_plan_loop ws hosts (i + 1) rest results2)
             else execute_plan_loop ws hosts (i + 1) rest results1)"

definition execute_plan ::
  "websocket \<Rightarrow> (nat \<Rightarrow> host) \<Rightarrow> ExecutionPlan \<Rightarrow> ExecutionResult list outcome" where
  "execute_plan ws hosts plan = execute_plan_loop ws hosts 0 (steps plan) []"

text \<open>
  A host on which \<open>false\<close> exits with 1, \<open>true\<close> exits with 0 and nothing else can be
  started, and two steps for it.
\<close>

definition demo_host :: host where
  "demo_host cmd_parts cwd t =
     (if cmd_parts = [''true''] then Exits 0 [] []
      else if cmd_parts = [''false''] then Exits 1 [] []
      else SpawnFails ''No such file or directory'')"

definition failing_step :: ExecutionStep where
  "failing_step = demo_step\<lparr>command := ''false''\<rparr>"

definition recovering_step :: ExecutionStep where
  "recovering_step = demo_step\<lparr>command := ''false'', fallback_command := Some ''true''\<rparr>"

definition empty_step :: ExecutionStep where
  "empty_step = demo_step\<lparr>command := ''''\<rparr>"

declare str_nat.simps [simp del]

text \<open>
  A command always fails on the hosts of a run when every call finds a host on which
  it exits with a code other than 0, and always succeeds when it exits with 0.
\<close>

definition always_fails :: "(nat \<Rightarrow> host) \<Rightarrow> ExecutionStep \<Rightarrow> bool" where
  "always_fails hosts step =
     (py_split (command step) \<noteq> [] \<and>
      (\<forall>n. \<exists>code out_lines err_lines.
         hosts n (py_split (command step)) (step_cwd step) (timeout step)
           = Exits code out_lines err_lines \<and> code \<noteq> 0))"

definition always_succeeds :: "(nat \<Rightarrow> host) \<Rightarrow> ExecutionStep \<Rightarrow> bool" where
  "always_succeeds hosts step =
     (py_split (command step) \<noteq> [] \<and>
      (\<forall>n. \<exists>out_lines err_lines.
         hosts n (py_split (command step)) (step_cwd step) (timeout step)
           = Exits 0 out_lines err_lines))"

definition steady_hosts :: "nat \<Rightarrow> host" where
  "steady_hosts n = demo_host"

section \<open>Action registry (backend/gemini/function_registry.py)\<close>

text \<open>
  A handler is called with the session, the websocket and the keyword arguments. It
  returns a result dictionary or raises; in both cases the session is left as the
  handler has changed it so far. The registry is the dictionary \<open>self.functions\<close>.
\<close>

type_synonym 'a effect = "(exn + 'a) \<times> SessionState"

type_synonym handler = "SessionState \<Rightarrow> websocket \<Rightarrow> pydict \<Rightarrow> int \<Rightarrow> pydict effect"

type_synonym registry = "string \<Rightarrow> handler option"

record function_call =
  fc_name :: string
  fc_arguments :: pydict

fun state_value :: "ConversationState \<Rightarrow> string" where
  "state_value INIT = ''INIT''"
| "state_value ASK_PROJECT_TYPE = ''ASK_PROJECT_TYPE''"
| "state_value ASK_LANGUAGE_PREFERENCE = ''ASK_LANGUAGE_PREFERENCE''"
| "state_value ASK_PROJECT_NAME_FOLDER = ''ASK_PROJECT_NAME_FOLDER''"
| "state_value ASK_ADDITIONAL_DETAILS = ''ASK_ADDITIONAL_DETAILS''"
| "state_value CHECK_SYSTEM_CAPABILITIES = ''CHECK_SYSTEM_CAPABILITIES''"
| "state_value VALIDATE_INFO = ''VALIDATE_INFO''"
| "state_value SUMMARY_CONFIRMATION = ''SUMMARY_CONFIRMATION''"
| "state_value PLANNING = ''PLANNING''"
| "state_value EXECUTING = ''EXECUTING''"
| "state_value VERIFYING = ''VERIFYING''"
| "state_value COMPLETED = ''COMPLETED''"
| "state_value ERROR = ''ERROR''"
| "state_value ABORTED = ''ABORTED''"

text \<open>\<open>ConversationState(name)\<close>: the state with that value, if there is one.\<close>

definition state_of_value :: "string \<Rightarrow> ConversationState option" where
  "state_of_value v = find (\<lambda>st. state_value st = v) all_states"

text \<open>
  \<open>reqs.project_type and reqs.language and reqs.project_name\<close>, as a condition.
\<close>

definition requirements_set :: "SessionState \<Rightarrow> bool" where
  "requirements_set s =
     (truthy (project_type (requirements s)) \<and> truthy (language (requirements s)) \<and>
      truthy (project_name (requirements s)))"

subsection \<open>\<open>_validate_function_for_state\<close>\<close>

text \<open>
  Only INIT has an entry in \<open>state_restrictions\<close>. With the three requirements set,
  three functions move from its block list to its allow-list (\<open>list.remove\<close> takes
  out the first occurrence). A function is rejected when it is on the block list;
  the allow-list only appears in the error message.
\<close>

definition init_blocked_functions :: "SessionState \<Rightarrow> string list" where
  "init_blocked_functions s =
     (let blocked = [''create_project_with_steps'', ''generate_file_content'',
                     ''ai_generate_project_steps'',
                     ''validate_requirements_against_capabilities'',
                     ''fail_technology_and_switch'']
      in if requirements_set s
         then remove1 ''fail_technology_and_switch''
                (remove1 ''create_project_with_steps''
                   (remove1 ''ai_generate_project_steps'' blocked))
         else blocked)"

definition init_allowed_functions :: "SessionState \<Rightarrow> string list" where
  "init_allowed_functions s =
     (let allowed = [''request_permission'', ''detect_system_capabilities'',
                     ''update_project_requirements'']
      in if requirements_set s
         then allowed @ [''ai_generate_project_steps'', ''create_project_with_steps'',
                         ''fail_technology_and_switch'']
         else allowed)"

definition validate_function_for_state :: "string \<Rightarrow> SessionState \<Rightarrow> string option" where
  "validate_function_for_state func_name s =
     (if current_state s = INIT \<and> func_name \<in> set (init_blocked_functions s)
      then Some (''Function '' @ [CHR 0x27] @ func_name @ [CHR 0x27] @ '' is not allowed in ''
                 @ state_value (current_state s) @ '' state. Allowed functions: ''
                 @ join_with '', '' (init_allowed_functions s))
      else None)"

definition get_allowed_functions_for_state :: "ConversationState \<Rightarrow> string list" where
  "get_allowed_functions_for_state st =
     (if st = INIT then [''request_permission'', ''detect_system_capabilities'']
      else if st = ASK_PROJECT_TYPE
      then [''update_project_requirements'', ''detect_system_capabilities'']
      else if st = PLANNING then [''ai_generate_project_steps'', ''create_project_with_steps'']
      else [''All functions allowed''])"

subsection \<open>\<open>_handle_missing_requirements\<close>\<close>

text \<open>
  The recovery check before dispatch. \<open>extract\<close> is the answer of the reasoning
  capability to the extraction prompt, already parsed and stripped of null values
  (the empty dictionary when it fails); it is asked only when the history holds some
  text. The call of the \<open>update_project_requirements\<close> handler sits in a \<open>try\<close>: if it
  raises, the check returns \<open>False\<close> and what the handler changed stays.
\<close>

fun content_truthy :: "msg_content \<Rightarrow> bool" where
  "content_truthy (Plain t) = (t \<noteq> [])"
| "content_truthy c = True"

fun content_blank :: "msg_content \<Rightarrow> bool" where
  "content_blank (Plain t) = (py_strip t = [])"
| "content_blank c = False"

definition extract_requirements_from_conversation ::
  "(message list \<Rightarrow> pydict) \<Rightarrow> SessionState \<Rightarrow> pydict" where
  "extract_requirements_from_conversation extract s =
     (if conversation_history s = [] then []
      else if list_all (\<lambda>m. \<not> content_truthy (content m) \<or> content_blank (content m))
                (conversation_history s) then []
      else extract (conversation_history s))"

definition handle_missing_requirements ::
  "registry \<Rightarrow> (message list \<Rightarrow> pydict) \<Rightarrow> websocket \<Rightarrow> int \<Rightarrow> string \<Rightarrow> SessionState
     \<Rightarrow> bool \<times> SessionState" where
  "handle_missing_requirements fns extract ws now func_name s =
     (if current_state s \<noteq> INIT then (False, s)
      else if func_name \<notin> set [''create_project_with_steps'', ''generate_file_content'',
                                ''ai_generate_project_steps'', ''fail_technology_and_switch'']
      then (False, s)
      else if requirements_set s then (False, s)
      else let extracted = extract_requirements_from_conversation extract s
           in if extracted = [] then (False, s)
              else case fns ''update_project_requirements'' of
                     None \<Rightarrow> (False, s)
                   | Some update_func \<Rightarrow>
                       (case update_func s ws extracted now of
                          (Inl e, s') \<Rightarrow> (False, s')
                        | (Inr result, s') \<Rightarrow>
                            (True, if current_state s' = INIT
                                   then s'\<lparr>current_state := ASK_PROJECT_TYPE\<rparr> else s')))"

subsection \<open>\<open>execute\<close>\<close>

definition failed_result :: "string \<Rightarrow> pydict" where
  "failed_result error_msg = [(''error'', PStr error_msg), (''status'', PStr ''failed'')]"

definition blocked_result :: "string \<Rightarrow> SessionState \<Rightarrow> pydict" where
  "blocked_result validation_error s =
     [(''status'', PStr ''blocked_by_state_machine''),
      (''error'', PStr validation_error),
      (''current_state'', PStr (state_value (current_state s))),
      (''allowed_functions'', PList (get_allowed_functions_for_state (current_state s)))]"

text \<open>
  The \<open>except Exception\<close> handler of \<open>execute\<close>: it reports the error over the
  websocket, outside of any \<open>try\<close>, and returns a result with status \<open>failed\<close>.
\<close>

definition execute_except :: "websocket \<Rightarrow> string \<Rightarrow> exn \<Rightarrow> SessionState \<Rightarrow> pydict effect" where
  "execute_except ws func_name e s =
     (if send_ok ws ''function_execution_error''
      then (Inr (failed_result (''Function execution error in '' @ func_name @ '': ''
                                @ exn_message e)), s)
      else (Inl (SendFailed ''function_execution_error''), s))"

definition execute ::
  "registry \<Rightarrow> (message list \<Rightarrow> pydict) \<Rightarrow> websocket \<Rightarrow> int \<Rightarrow> function_call
     \<Rightarrow> SessionState \<Rightarrow> pydict effect" where
  "execute fns extract ws now call s =
     (let func_name = fc_name call; args = fc_arguments call
      in case fns func_name of
           None \<Rightarrow> (Inr (failed_result (''Unknown function: '' @ func_name)), s)
         | Some func \<Rightarrow>
             if \<not> send_ok ws ''function_execution_start''
             then (Inl (SendFailed ''function_execution_start''), s)
             else
               let (auto_call_result, s1) =
                     handle_missing_requirements fns extract ws now func_name s
               in if auto_call_result \<and> \<not> send_ok ws ''auto_intervention''
                  then execute_except ws func_name (SendFailed ''auto_intervention'') s1
                  else case validate_function_for_state func_name s1 of
                         Some validation_error \<Rightarrow>
                           (Inr (blocked_result validation_error s1), s1)
                       | None \<Rightarrow>
                           (case func s1 ws args now of
                              (Inl e, s2) \<Rightarrow> execute_except ws func_name e s2
                            | (Inr result, s2) \<Rightarrow>
                                let s3 = s2\<lparr>function_results := function_results s2
                                             @ [RegistryEntry (PStr func_name) args result now]\<rparr>
                                in if send_ok ws ''function_execution_complete''
                                   then (Inr result, s3)
                                   else execute_except ws func_name
                                          (SendFailed ''function_execution_complete'') s3))"

subsection \<open>Handlers\<close>

text \<open>
  Binding keyword arguments: a missing required parameter or an unexpected keyword
  is a \<open>TypeError\<close> of the call.
\<close>

definition bind_kwargs :: "string list \<Rightarrow> string list \<Rightarrow> pydict \<Rightarrow> bool" where
  "bind_kwargs required optional args =
     (list_all (\<lambda>k. map_of args k \<noteq> None) required \<and>
      list_all (\<lambda>(k, v). k \<in> set required \<or> k \<in> set optional) args)"

text \<open>\<open>ask_user_preference\<close>, \<open>request_permission\<close> and \<open>update_conversation_state\<close>.\<close>

definition ask_user_preference :: handler where
  "ask_user_preference s ws args now =
     (if \<not> bind_kwargs [''field'', ''options'', ''question''] [''default''] args
      then (Inl (TypeError ''ask_user_preference() got unexpected arguments''), s)
      else (Inr [(''status'', PStr ''waiting_for_user''), (''field'', dict_get args ''field'')],
            s\<lparr>pending_question :=
                 Some [(''type'', PStr ''choice''),
                       (''field'', dict_get args ''field''),
                       (''options'', dict_get args ''options''),
                       (''question'', dict_get args ''question''),
                       (''default'', dict_get args ''default'')],
               waiting_for_user := True\<rparr>))"

definition request_permission :: handler where
  "request_permission s ws args now =
     (if \<not> bind_kwargs [''permission_type'', ''scope'', ''reason''] [''required''] args
      then (Inl (TypeError ''request_permission() got unexpected arguments''), s)
      else (Inr [(''status'', PStr ''permission_requested''),
                 (''type'', dict_get args ''permission_type''),
                 (''scope'', dict_get args ''scope'')],
            s\<lparr>pending_question :=
                 Some [(''type'', PStr ''permission''),
                       (''permission_type'', dict_get args ''permission_type''),
                       (''scope'', dict_get args ''scope''),
                       (''reason'', dict_get args ''reason''),
                       (''required'', dict_get_default args ''required'' (PBool True)),
                       (''question'', PFormat ''Grant {} permission for: {}? Reason: {}''
                          [dict_get args ''permission_type'', dict_get args ''scope'',
                           dict_get args ''reason''])],
               waiting_for_user := True\<rparr>))"

definition update_conversation_state :: handler where
  "update_conversation_state s ws args now =
     (if \<not> bind_kwargs [''new_state''] [''reason''] args
      then (Inl (TypeError ''update_conversation_state() got unexpected arguments''), s)
      else case dict_get args ''new_state'' of
             PStr v \<Rightarrow>
               (case state_of_value v of
                  None \<Rightarrow> (Inl (ValueError (v @ '' is not a valid ConversationState'')), s)
                | Some st \<Rightarrow>
                    (Inr [(''status'', PStr ''state_updated''),
                          (''old_state'', PStr (state_value (current_state s))),
                          (''new_state'', PStr v)],
                     (update_state now st s)
                       \<lparr>state_history := state_history s
                          @ [\<lparr>sc_from = current_state s, sc_to = v,
                               sc_reason = dict_get args ''reason'',
                               sc_timestamp = now\<rparr>]\<rparr>))
           | other \<Rightarrow> (Inl (ValueError ''not a valid ConversationState''), s))"

text \<open>
  The part of the registry with the three handlers above; the other registered
  functions call the reasoning capability or the host and enter \<open>execute\<close> only as
  its parameter.
\<close>

definition core_functions :: registry where
  "core_functions =
     [''ask_user_preference'' \<mapsto> ask_user_preference,
      ''request_permission'' \<mapsto> request_permission,
      ''update_conversation_state'' \<mapsto> update_conversation_state]"

definition no_extract :: "message list \<Rightarrow> pydict" where
  "no_extract h = []"

definition ask_database :: function_call where
  "ask_database =
     \<lparr>fc_name = ''ask_user_preference'',
      fc_arguments = [(''field'', PStr ''database''),
                      (''options'', PList [''sqlite'', ''postgresql'']),
                      (''question'', PStr ''Which database?'')]\<rparr>"

definition database_question :: pydict where
  "database_question =
     [(''type'', PStr ''choice''), (''field'', PStr ''database''),
      (''options'', PList [''sqlite'', ''postgresql'']),
      (''question'', PStr ''Which database?''), (''default'', PNone)]"

text \<open>
  A call of \<open>generate_file_content\<close>, whose handler here stands for any handler with
  a visible effect on the session.
\<close>

definition generate_call :: function_call where
  "generate_call =
     \<lparr>fc_name = ''generate_file_content'',
      fc_arguments = [(''file_path'', PStr ''App.tsx'')]\<rparr>"

definition marking_handler :: handler where
  "marking_handler s ws args now =
     (Inr [(''status'', PStr ''completed'')], s\<lparr>completion_percentage := 100\<rparr>)"

definition marked_functions :: registry where
  "marked_functions = core_functions(''generate_file_content'' \<mapsto> marking_handler)"

definition unknown_call :: function_call where
  "unknown_call = \<lparr>fc_name = ''delete_everything'', fc_arguments = []\<rparr>"

section \<open>Orchestrator (backend/core/agent.py)\<close>

text \<open>
  What a turn finds around it: the clock, the websocket (\<open>None\<close> when the turn is
  started over HTTP), the registry, the extraction answer of the reasoning capability,
  whether the API key is configured and whether the session file can be written.
\<close>

record turn_env =
  clock :: int
  socket :: websocket
  function_registry :: registry
  extraction :: "message list \<Rightarrow> pydict"
  api_key_configured :: bool
  store_writable :: bool

text \<open>
  The stream of one completion of the reasoning capability: text, one function call
  per chunk, the end-of-turn signal, a chunk of another type, or a transport failure
  at that point of the stream.
\<close>

datatype chunk =
    TextChunk string
  | FunctionCallChunk function_call
  | FinishChunk
  | OtherChunk
  | StreamFails string

text \<open>The session invariant of the specification.\<close>

definition session_invariant :: "SessionState \<Rightarrow> bool" where
  "session_invariant s = (waiting_for_user s \<longleftrightarrow> pending_question s \<noteq> None)"

text \<open>\<open>if session_state.pending_question\<close>: neither \<open>None\<close> nor the empty dictionary.\<close>

definition pending_truthy :: "SessionState \<Rightarrow> bool" where
  "pending_truthy s = (case pending_question s of None \<Rightarrow> False | Some q \<Rightarrow> q \<noteq> [])"

subsection \<open>\<open>_should_advance_workflow\<close>\<close>

text \<open>
  The permissions are \<open>Permission\<close> objects, which have no method \<open>get\<close>: with a
  permission on record, the check of \<open>perm.get('granted', False)\<close> raises.
\<close>

definition advancement_statuses :: "string list" where
  "advancement_statuses =
     [''completed'', ''capabilities_detected'', ''capabilities_already_detected'',
      ''requirements_updated'', ''updated'', ''validation_complete'', ''confirmed'',
      ''plan_generated'', ''ai_recovery_needed'']"

definition blocking_statuses :: "string list" where
  "blocking_statuses =
     [''waiting_for_user'', ''permission_requested'', ''error'', ''failed'',
      ''needs_retry'', ''executing'', ''validating'']"

definition status_in :: "pyval \<Rightarrow> string list \<Rightarrow> bool" where
  "status_in status xs = (case status of PStr v \<Rightarrow> v \<in> set xs | other \<Rightarrow> False)"

definition should_advance_workflow :: "websocket \<Rightarrow> SessionState \<Rightarrow> exn + bool" where
  "should_advance_workflow ws s =
     (if waiting_for_user s \<or> pending_truthy s then Inr False
      else if function_results s = [] then Inr True
      else
        let last_function = last (function_results s);
            function_name = entry_name last_function;
            status = entry_status last_function
        in if status = PStr ''permission_requested'' \<and>
              function_name = PStr ''request_permission'' \<and> current_state s = INIT
           then (if permissions s \<noteq> []
                 then Inl (AttributeError ''Permission object has no attribute get'')
                 else if send_ok ws ''advancement_blocked'' then Inr False
                 else Inl (SendFailed ''advancement_blocked''))
           else if status_in status blocking_statuses
           then (if send_ok ws ''advancement_blocked'' then Inr False
                 else Inl (SendFailed ''advancement_blocked''))
           else if status_in status advancement_statuses
           then (if current_state s = INIT then Inr (length (permissions s) > 0)
                 else if current_state s = CHECK_SYSTEM_CAPABILITIES
                 then Inr (capabilities s \<noteq> None)
                 else if current_state s \<in> set [ASK_PROJECT_TYPE, ASK_PROJECT_NAME_FOLDER,
                                                 ASK_ADDITIONAL_DETAILS]
                 then Inr (project_type (requirements s) \<noteq> PNone)
                 else if current_state s = PLANNING then Inr (execution_plan s \<noteq> None)
                 else Inr True)
           else if send_ok ws ''advancement_uncertain'' then Inr False
           else Inl (SendFailed ''advancement_uncertain''))"

subsection \<open>\<open>_map_project_type_string\<close>\<close>

definition project_type_mappings :: "(string \<times> ProjectType) list" where
  "project_type_mappings =
     [(''web app'', FULLSTACK), (''web application'', FULLSTACK), (''website'', FRONTEND),
      (''frontend'', FRONTEND), (''web frontend'', FRONTEND), (''react app'', FRONTEND),
      (''vue app'', FRONTEND), (''angular app'', FRONTEND),
      (''api'', WEB_API), (''web api'', WEB_API), (''rest api'', WEB_API),
      (''backend'', WEB_API), (''web backend'', WEB_API), (''server'', WEB_API),
      (''fullstack'', FULLSTACK), (''full stack'', FULLSTACK), (''full-stack'', FULLSTACK),
      (''fullstack app'', FULLSTACK), (''todo app'', FULLSTACK),
      (''web app with backend'', FULLSTACK),
      (''cli'', CLI), (''command line'', CLI), (''command line tool'', CLI),
      (''terminal app'', CLI),
      (''mobile'', MOBILE_APP), (''mobile app'', MOBILE_APP), (''android app'', MOBILE_APP),
      (''ios app'', MOBILE_APP),
      (''library'', LIBRARY), (''package'', LIBRARY), (''sdk'', LIBRARY),
      (''microservice'', MICROSERVICE), (''micro service'', MICROSERVICE),
      (''service'', MICROSERVICE)]"

definition project_type_values :: "(string \<times> ProjectType) list" where
  "project_type_values =
     [(''web_api'', WEB_API), (''frontend'', FRONTEND), (''cli'', CLI),
      (''mobile_app'', MOBILE_APP), (''fullstack'', FULLSTACK), (''library'', LIBRARY),
      (''microservice'', MICROSERVICE)]"

definition map_project_type_string :: "string \<Rightarrow> ProjectType" where
  "map_project_type_string project_type_input =
     (let input_lower = py_strip (py_lower project_type_input)
      in case map_of project_type_mappings input_lower of
           Some t \<Rightarrow> t
         | None \<Rightarrow>
             (case find (\<lambda>(key, t). py_in key input_lower \<or> py_in input_lower key)
                     project_type_mappings of
                Some (key, t) \<Rightarrow> t
              | None \<Rightarrow>
                  (case find (\<lambda>(v, t). py_lower v = input_lower) project_type_values of
                     Some (v, t) \<Rightarrow> t
                   | None \<Rightarrow> FULLSTACK)))"

subsection \<open>\<open>_handle_user_response\<close>\<close>

text \<open>
  \<open>setattr\<close> on the requirements, for the names of its declared fields; \<open>hasattr\<close>
  is taken to hold for these names only.
\<close>

definition set_requirement ::
  "string \<Rightarrow> pyval \<Rightarrow> ProjectRequirements \<Rightarrow> ProjectRequirements option" where
  "set_requirement name v r =
     (if name = ''project_type'' then Some (r\<lparr>project_type := v\<rparr>)
      else if name = ''language'' then Some (r\<lparr>language := v\<rparr>)
      else if name = ''framework'' then Some (r\<lparr>framework := v\<rparr>)
      else if name = ''project_name'' then Some (r\<lparr>project_name := v\<rparr>)
      else if name = ''folder_path'' then Some (r\<lparr>folder_path := v\<rparr>)
      else if name = ''database'' then Some (r\<lparr>database := v\<rparr>)
      else if name = ''authentication'' then Some (r\<lparr>authentication := v\<rparr>)
      else if name = ''testing'' then Some (r\<lparr>testing := v\<rparr>)
      else if name = ''docker'' then Some (r\<lparr>docker := v\<rparr>)
      else if name = ''additional_features'' then Some (r\<lparr>additional_features := v\<rparr>)
      else None)"

text \<open>
  Iterating over the options: a list gives its elements, a string its characters,
  anything else is not iterable.
\<close>

definition iterate_options :: "pyval \<Rightarrow> exn + string list" where
  "iterate_options v =
     (case v of
        PList xs \<Rightarrow> Inr xs
      | PStr t \<Rightarrow> Inr (map (\<lambda>c. [c]) t)
      | other \<Rightarrow> Inl (TypeError ''object is not iterable''))"

definition option_matches :: "string \<Rightarrow> string \<Rightarrow> bool" where
  "option_matches user_lower option =
     (py_lower option = user_lower \<or> py_in user_lower (py_lower option))"

definition dict_set :: "'k \<Rightarrow> 'v \<Rightarrow> ('k \<times> 'v) list \<Rightarrow> ('k \<times> 'v) list" where
  "dict_set k v d =
     (if k \<in> fst ` set d then map (\<lambda>(k', v'). if k' = k then (k', v) else (k', v')) d
      else d @ [(k, v)])"

definition handle_choice ::
  "turn_env \<Rightarrow> string \<Rightarrow> pydict \<Rightarrow> SessionState \<Rightarrow> bool effect" where
  "handle_choice env user_input question s =
     (let field = dict_get question ''field'';
          user_lower = py_strip (py_lower user_input)
      in case iterate_options (dict_get_default question ''options'' (PList [])) of
           Inl e \<Rightarrow> (Inl e, s)
         | Inr options \<Rightarrow>
             (case find (option_matches user_lower) options of
                Some selected_option \<Rightarrow>
                  if selected_option \<noteq> []
                  then
                    (case field of
                       PStr name \<Rightarrow>
                         let chosen = (if name = ''project_type''
                                       then PEnum (map_project_type_string selected_option)
                                       else PStr selected_option);
                             (value, s1) =
                               (case set_requirement name chosen (requirements s) of
                                  Some r \<Rightarrow> (chosen, s\<lparr>requirements := r\<rparr>)
                                | None \<Rightarrow> (PStr selected_option, s));
                             s2 = add_message (clock env) ''assistant''
                                    (ChoiceNoted field value) s1;
                             s3 = s2\<lparr>pending_question := None\<rparr>
                         in if send_ok (socket env) ''choice_accepted'' then (Inr True, s3)
                            else (Inl (SendFailed ''choice_accepted''), s3)
                     | other \<Rightarrow> (Inl (TypeError ''attribute name must be string''), s))
                  else
                    let s1 = add_message (clock env) ''assistant''
                               (ChoiceNotUnderstood user_input options) s
                    in if send_ok (socket env) ''choice_invalid'' then (Inr False, s1)
                       else (Inl (SendFailed ''choice_invalid''), s1)
              | None \<Rightarrow>
                  let s1 = add_message (clock env) ''assistant''
                             (ChoiceNotUnderstood user_input options) s
                  in if send_ok (socket env) ''choice_invalid'' then (Inr False, s1)
                     else (Inl (SendFailed ''choice_invalid''), s1)))"

text \<open>
  After a grant the capability detection is started through the registry, inside a
  \<open>try\<close> that swallows whatever it raises; what the detection handler did to the
  session stays.
\<close>

definition auto_detect :: "turn_env \<Rightarrow> SessionState \<Rightarrow> SessionState" where
  "auto_detect env s =
     (case function_registry env ''detect_system_capabilities'' of
        None \<Rightarrow> s
      | Some detect_func \<Rightarrow>
          snd (detect_func s (socket env) [(''force_refresh'', PBool False)] (clock env)))"

definition handle_permission ::
  "turn_env \<Rightarrow> string \<Rightarrow> pydict \<Rightarrow> SessionState \<Rightarrow> bool effect" where
  "handle_permission env user_input question s =
     (let permission_granted =
            (py_strip (py_lower user_input)
               \<in> set [''yes'', ''y'', ''ok'', ''allow'', ''grant'', ''approve''])
      in if permission_granted
         then
           (case (dict_get question ''permission_type'', dict_get question ''scope'') of
              (PStr ptype, PStr scope) \<Rightarrow>
                let permission = \<lparr>perm_type = ptype, perm_scope = scope, granted = True,
                                   perm_timestamp = clock env\<rparr>;
                    s1 = s\<lparr>permissions := dict_set scope permission (permissions s)\<rparr>;
                    s2 = add_message (clock env) ''assistant''
                           (PermissionGrantedFor (PStr scope)) s1
                in if \<not> send_ok (socket env) ''permission_granted''
                   then (Inl (SendFailed ''permission_granted''), s2)
                   else (Inr True, (auto_detect env s2)\<lparr>pending_question := None\<rparr>)
            | other \<Rightarrow> (Inl (ValueError ''validation error for Permission''), s))
         else
           let s1 = add_message (clock env) ''assistant'' PermissionDeniedMsg s
           in if \<not> send_ok (socket env) ''permission_denied''
              then (Inl (SendFailed ''permission_denied''), s1)
              else (Inr True, s1\<lparr>pending_question := None\<rparr>))"

definition handle_user_response ::
  "turn_env \<Rightarrow> string \<Rightarrow> SessionState \<Rightarrow> bool effect" where
  "handle_user_response env user_input s =
     (if \<not> pending_truthy s then (Inr True, s)
      else
        let question = the (pending_question s);
            question_type = dict_get question ''type''
        in if question_type = PStr ''choice'' then handle_choice env user_input question s
           else if question_type = PStr ''permission''
           then handle_permission env user_input question s
           else (Inr True, s))"

subsection \<open>\<open>_process_with_gemini\<close>\<close>

text \<open>
  The handler of the \<open>try\<close> around the stream: the error becomes an assistant message,
  and the \<open>ai_message\<close> event is sent outside of any \<open>try\<close>.
\<close>

definition gemini_except :: "turn_env \<Rightarrow> exn \<Rightarrow> SessionState \<Rightarrow> exn option \<times> SessionState" where
  "gemini_except env e s =
     (let s1 = add_message (clock env) ''assistant'' (EncounteredError (exn_message e)) s
      in if send_ok (socket env) ''ai_message'' then (None, s1)
         else (Some (SendFailed ''ai_message''), s1))"

definition emit :: "turn_env \<Rightarrow> string \<Rightarrow> SessionState \<Rightarrow> unit effect" where
  "emit env t s = (if send_ok (socket env) t then (Inr (), s) else (Inl (SendFailed t), s))"

text \<open>
  What the orchestrator does with the status of a result, before it stores the result.
  For \<open>execution_completed\<close> every send is wrapped in its own \<open>try\<close>, and the state
  is set to COMPLETED directly; for \<open>plan_generated\<close> the project creation is
  dispatched at once.
\<close>

definition on_status :: "turn_env \<Rightarrow> pyval \<Rightarrow> SessionState \<Rightarrow> unit effect" where
  "on_status env status s =
     (if status = PStr ''completed'' then emit env ''function_completed'' s
      else if status = PStr ''capabilities_detected'' \<or>
              status = PStr ''capabilities_already_detected''
      then emit env ''capabilities_ready'' (s\<lparr>capabilities_detected := True\<rparr>)
      else if status = PStr ''requirements_updated'' then emit env ''requirements_updated'' s
      else if status = PStr ''execution_completed''
      then (Inr (), update_state (clock env) COMPLETED s)
      else if status = PStr ''plan_generated''
      then (if \<not> send_ok (socket env) ''plan_ready'' then (Inl (SendFailed ''plan_ready''), s)
            else case execute (function_registry env) (extraction env) (socket env) (clock env)
                        \<lparr>fc_name = ''execute_project_creation'',
                          fc_arguments = [(''confirm_execution'', PBool True)]\<rparr> s of
                   (Inl e, s1) \<Rightarrow> (Inl e, s1)
                 | (Inr exec_result, s1) \<Rightarrow>
                     if dict_get exec_result ''status'' = PStr ''execution_completed''
                     then emit env ''project_created'' s1
                     else (Inr (), s1))
      else if status = PStr ''error'' \<or> status = PStr ''failed''
      then emit env ''function_error'' s
      else if status = PStr ''needs_retry'' then emit env ''function_retry'' s
      else (Inr (), s))"

text \<open>
  Storing the result: append, then drop the oldest entry if there are more than 10.
\<close>

definition store_function_result ::
  "int \<Rightarrow> function_call \<Rightarrow> pyval \<Rightarrow> pydict \<Rightarrow> SessionState \<Rightarrow> SessionState" where
  "store_function_result now call status func_result s =
     (let rs = function_results s @ [AgentEntry (PStr (fc_name call)) status now func_result]
      in s\<lparr>function_results := (if length rs > 10 then tl rs else rs)\<rparr>)"

datatype loop_control = Continue | Break

definition handle_function_call ::
  "turn_env \<Rightarrow> function_call \<Rightarrow> SessionState \<Rightarrow> loop_control effect" where
  "handle_function_call env call s =
     (if \<not> send_ok (socket env) ''function_call_detected''
      then (Inl (SendFailed ''function_call_detected''), s)
      else case execute (function_registry env) (extraction env) (socket env) (clock env) call s of
             (Inl e, s1) \<Rightarrow> (Inl e, s1)
           | (Inr func_result, s1) \<Rightarrow>
               let status = dict_get func_result ''status''
               in if \<not> send_ok (socket env) ''function_result''
                  then (Inl (SendFailed ''function_result''), s1)
                  else if status = PStr ''waiting_for_user'' \<or>
                          status = PStr ''permission_requested''
                  then (let s2 = s1\<lparr>waiting_for_user := True\<rparr>
                        in if send_ok (socket env) ''permission_request'' then (Inr Break, s2)
                           else (Inl (SendFailed ''permission_request''), s2))
                  else case on_status env status s1 of
                         (Inl e, s2) \<Rightarrow> (Inl e, s2)
                       | (Inr u, s2) \<Rightarrow>
                           (Inr Continue,
                            store_function_result (clock env) call status func_result s2))"

text \<open>
  The end-of-turn chunk. The result says whether the state has advanced, in which case
  the session is saved and \<open>_process_with_gemini\<close> is entered again.
\<close>

definition stamp_session :: "int \<Rightarrow> SessionState \<Rightarrow> SessionState" where
  "stamp_session now s = s\<lparr>updated_at := now, state_version := state_version s + 1\<rparr>"

definition finish_turn :: "turn_env \<Rightarrow> string \<Rightarrow> SessionState \<Rightarrow> bool effect" where
  "finish_turn env accumulated_response s =
     (let s1 = (if py_strip accumulated_response \<noteq> []
                then add_message (clock env) ''assistant'' (Plain accumulated_response) s
                else s)
      in case should_advance_workflow (socket env) s1 of
           Inl e \<Rightarrow> (Inl e, s1)
         | Inr should_transition \<Rightarrow>
             let moved = (if should_transition
                          then (if \<not> send_ok (socket env) ''workflow_advancing''
                                then (Inl (SendFailed ''workflow_advancing''), s1)
                                else let s2 = snd (auto_transition (clock env) s1);
                                         state_changed = (current_state s2 \<noteq> current_state s1)
                                     in if state_changed \<and>
                                           \<not> send_ok (socket env) ''state_transitioned''
                                        then (Inl (SendFailed ''state_transitioned''), s2)
                                        else (Inr state_changed, s2))
                          else (if send_ok (socket env) ''workflow_waiting''
                                then (Inr False, s1)
                                else (Inl (SendFailed ''workflow_waiting''), s1)))
             in case moved of
                  (Inl e, s2) \<Rightarrow> (Inl e, s2)
                | (Inr state_changed, s2) \<Rightarrow>
                    let s3 = s2\<lparr>iteration_count := iteration_count s2 + 1\<rparr>
                    in if \<not> send_ok (socket env) ''iteration_complete''
                       then (Inl (SendFailed ''iteration_complete''), s3)
                       else if should_transition \<and> state_changed
                       then (if store_writable env then (Inr True, stamp_session (clock env) s3)
                             else (Inl (OSError ''write failed''), stamp_session (clock env) s3))
                       else (Inr False, s3))"

text \<open>
  The loop over the chunks of a completion. \<open>responses\<close> are the completions the
  reasoning capability gives to the further calls of this turn; once they are used up
  a completion is empty. An exception of the inner call arrives in the handler of
  the outer one.
\<close>

fun process_chunks ::
  "turn_env \<Rightarrow> chunk list list \<Rightarrow> chunk list \<Rightarrow> string \<Rightarrow> SessionState
     \<Rightarrow> exn option \<times> SessionState" where
  "process_chunks env responses [] accumulated s = (None, s)"
| "process_chunks env responses (c # cs) accumulated s =
     (case c of
        TextChunk t \<Rightarrow>
          if send_ok (socket env) ''ai_message_chunk''
          then process_chunks env responses cs (accumulated @ t) s
          else gemini_except env (SendFailed ''ai_message_chunk'') s
      | FunctionCallChunk call \<Rightarrow>
          (case handle_function_call env call s of
             (Inl e, s1) \<Rightarrow> gemini_except env e s1
           | (Inr Break, s1) \<Rightarrow> (None, s1)
           | (Inr Continue, s1) \<Rightarrow> process_chunks env responses cs accumulated s1)
      | FinishChunk \<Rightarrow>
          (case finish_turn env accumulated s of
             (Inl e, s1) \<Rightarrow> gemini_except env e s1
           | (Inr False, s1) \<Rightarrow> (None, s1)
           | (Inr True, s1) \<Rightarrow>
               (case responses of
                  [] \<Rightarrow> (None, s1)
                | r # rest \<Rightarrow>
                    (case process_chunks env rest r [] s1 of
                       (None, s2) \<Rightarrow> (None, s2)
                     | (Some e, s2) \<Rightarrow> gemini_except env e s2)))
      | OtherChunk \<Rightarrow> process_chunks env responses cs accumulated s
      | StreamFails m \<Rightarrow> gemini_except env (OSError m) s)"

definition process_with_gemini ::
  "turn_env \<Rightarrow> chunk list list \<Rightarrow> SessionState \<Rightarrow> exn option \<times> SessionState" where
  "process_with_gemini env responses s =
     (if \<not> api_key_configured env
      then (if send_ok (socket env) ''error'' then (None, s)
            else (Some (SendFailed ''error''), s))
      else case responses of
             [] \<Rightarrow> (None, s)
           | r # rest \<Rightarrow> process_chunks env rest r [] s)"

subsection \<open>\<open>process_conversation\<close>\<close>

definition process_conversation_try ::
  "turn_env \<Rightarrow> chunk list list \<Rightarrow> string \<Rightarrow> SessionState \<Rightarrow> exn option \<times> SessionState" where
  "process_conversation_try env responses user_input s =
     (let s0 = add_message (clock env) ''user'' (Plain user_input) s
      in if pending_truthy s0
         then (case handle_user_response env user_input s0 of
                 (Inl e, s1) \<Rightarrow> (Some e, s1)
               | (Inr response_valid, s1) \<Rightarrow>
                   if response_valid \<and> waiting_for_user s1
                   then (let s2 = s1\<lparr>waiting_for_user := False\<rparr>
                         in if \<not> send_ok (socket env) ''user_response_processed''
                            then (Some (SendFailed ''user_response_processed''), s2)
                            else process_with_gemini env responses s2)
                   else process_with_gemini env responses s1)
         else process_with_gemini env responses s0)"

text \<open>
  The outer handler records the error in the session and reports it, again outside of
  any \<open>try\<close>. The result is the exception that leaves \<open>process_conversation\<close>, if any,
  and the session after the turn.
\<close>

definition process_conversation ::
  "turn_env \<Rightarrow> chunk list list \<Rightarrow> string \<Rightarrow> SessionState \<Rightarrow> exn option \<times> SessionState" where
  "process_conversation env responses user_input s =
     (case process_conversation_try env responses user_input s of
        (None, s1) \<Rightarrow> (None, s1)
      | (Some e, s1) \<Rightarrow>
          let s2 = s1\<lparr>error_message := Some (exn_message e)\<rparr>
          in if send_ok (socket env) ''error'' then (None, s2)
             else (Some (SendFailed ''error''), s2))"

subsection \<open>Sample turns\<close>

definition quiet_env :: turn_env where
  "quiet_env =
     \<lparr>clock = 5, socket = None, function_registry = core_functions,
      extraction = no_extract, api_key_configured = True, store_writable = True\<rparr>"

definition asked_database :: SessionState where
  "asked_database =
     (new_session 0 ''s1'')\<lparr>pending_question := Some database_question,
                              waiting_for_user := True\<rparr>"

definition set_state_call :: "string \<Rightarrow> chunk" where
  "set_state_call v =
     FunctionCallChunk \<lparr>fc_name = ''update_conversation_state'',
                         fc_arguments = [(''new_state'', PStr v)]\<rparr>"

definition text_question :: pydict where
  "text_question = [(''type'', PStr ''text''), (''question'', PStr ''Describe your app'')]"

definition asked_text :: SessionState where
  "asked_text =
     (new_session 0 ''s1'')\<lparr>pending_question := Some text_question,
                              waiting_for_user := True\<rparr>"

text \<open>A websocket that delivers everything except the \<open>choice_accepted\<close> event.\<close>

definition lossy_env :: turn_env where
  "lossy_env = quiet_env\<lparr>socket := Some (\<lambda>t. t \<noteq> ''choice_accepted'')\<rparr>"

subsection \<open>Conditions on a turn\<close>

text \<open>
  The pending question, if there is one, is of one of the two types the handlers
  create.
\<close>

definition question_typed :: "SessionState \<Rightarrow> bool" where
  "question_typed s =
     (pending_truthy s \<longrightarrow>
        dict_get (the (pending_question s)) ''type'' = PStr ''choice'' \<or>
        dict_get (the (pending_question s)) ''type'' = PStr ''permission'')"

text \<open>
  What the orchestrator relies on in the handlers: a handler keeps the invariant,
  whether it returns or raises, and it returns the status \<open>waiting_for_user\<close> or
  \<open>permission_requested\<close> only with a question stored. In the registry of the source
  \<open>ask_user_preference\<close> and \<open>request_permission\<close> are the only handlers that touch
  the question or the flag or return these statuses.
\<close>

definition keeps_question_protocol :: "registry \<Rightarrow> bool" where
  "keeps_question_protocol fns =
     (\<forall>name h s ws args now r s'.
        fns name = Some h \<longrightarrow> session_invariant s \<longrightarrow> h s ws args now = (r, s') \<longrightarrow>
        session_invariant s' \<and>
        (\<forall>res. r = Inr res \<longrightarrow>
           (dict_get res ''status'' = PStr ''waiting_for_user'' \<or>
            dict_get res ''status'' = PStr ''permission_requested'') \<longrightarrow>
           pending_question s' \<noteq> None))"

text \<open>The same surroundings with a websocket whose connection is closed.\<close>

definition closed_env :: turn_env where
  "closed_env = quiet_env\<lparr>socket := closed_websocket\<rparr>"

subsection \<open>Parts of the end-of-turn step\<close>

text \<open>
  \<open>finish_turn\<close> in two parts, the state transition and the closing of the iteration,
  and the two statuses on which the orchestrator waits for the user.
\<close>

definition advance_state :: "turn_env \<Rightarrow> bool \<Rightarrow> SessionState \<Rightarrow> bool effect" where
  "advance_state env should_transition s1 =
     (if should_transition
                          then (if \<not> send_ok (socket env) ''workflow_advancing''
                                then (Inl (SendFailed ''workflow_advancing''), s1)
                                else let s2 = snd (auto_transition (clock env) s1);
                                         state_changed = (current_state s2 \<noteq> current_state s1)
                                     in if state_changed \<and>
                                           \<not> send_ok (socket env) ''state_transitioned''
                                        then (Inl (SendFailed ''state_transitioned''), s2)
                                        else (Inr state_changed, s2))
                          else (if send_ok (socket env) ''workflow_waiting''
                                then (Inr False, s1)
                                else (Inl (SendFailed ''workflow_waiting''), s1)))"

definition close_iteration :: "turn_env \<Rightarrow> bool \<Rightarrow> bool effect \<Rightarrow> bool effect" where
  "close_iteration env should_transition moved =
    (case moved of
                  (Inl e, s2) \<Rightarrow> (Inl e, s2)
                | (Inr state_changed, s2) \<Rightarrow>
                    let s3 = s2\<lparr>iteration_count := iteration_count s2 + 1\<rparr>
                    in if \<not> send_ok (socket env) ''iteration_complete''
                       then (Inl (SendFailed ''iteration_complete''), s3)
                       else if should_transition \<and> state_changed
                       then (if store_writable env then (Inr True, stamp_session (clock env) s3)
                             else (Inl (OSError ''write failed''), stamp_session (clock env) s3))
                       else (Inr False, s3))"

definition waits :: "pydict \<Rightarrow> bool" where
  "waits res = (dict_get res ''status'' = PStr ''waiting_for_user'' \<or>
            dict_get res ''status'' = PStr ''permission_requested'')"

section \<open>\<open>create_project_with_steps\<close> (backend/gemini/function_registry.py)\<close>

text \<open>
  The handler runs the steps it is given and, after a technology switch, replaces them
  by regenerated ones. What the host, the reasoning capability and the switch do is
  given from outside, by the number of the loop iteration.

  A step either succeeds (a file is written, a command exits with 0); or the working
  directory cannot be created, and the loop \<open>continue\<close>s with the same step; or an
  exception is raised inside the \<open>try\<close> of the iteration; or the command fails and the
  recovery starts. The recovery asks for an alternative command: it works; or it
  fails or raises and \<open>_try_technology_switch\<close> is called; or no alternative is
  offered, \<open>_try_technology_switch\<close> is called and the loop \<open>break\<close>s; or the answer
  has another status. The flag says whether the switch has succeeded, which sets
  \<open>should_regenerate_steps\<close>.
\<close>

datatype recovery =
    AlternativeWorks
  | AlternativeFails bool
  | SwitchNeeded bool
  | RecoveryError

datatype step_event =
    Succeeds
  | DirectoryFails
  | StepRaises
  | Fails recovery

text \<open>
  \<open>ai_generate_project_steps\<close>: it answers with a generated list of steps, or with
  another status, or raises.
\<close>

datatype regeneration = Generated "pydict list" | NotGenerated | RegenerationRaises

record project_env =
  step_events :: "nat \<Rightarrow> pydict \<Rightarrow> step_event"
  regenerations :: "nat \<Rightarrow> regeneration"
  entry_regeneration :: regeneration
  project_directory_ok :: bool

datatype creation_result =
    RegenerateStepsFailed int
  | RegenerateStepsError int
  | RegenerateStepsNeeded
  | ExecutionCompleted int nat nat
  | CreationFailed

fun creation_status :: "creation_result \<Rightarrow> string" where
  "creation_status (RegenerateStepsFailed i) = ''regenerate_steps_failed''"
| "creation_status (RegenerateStepsError i) = ''regenerate_steps_error''"
| "creation_status RegenerateStepsNeeded = ''regenerate_steps_needed''"
| "creation_status (ExecutionCompleted successful n_total n_failed) = ''execution_completed''"
| "creation_status CreationFailed = ''creation_failed''"

text \<open>\<open>xs[i]\<close>: a negative index counts from the end; out of range is an \<open>IndexError\<close>.\<close>

definition py_index :: "'a list \<Rightarrow> int \<Rightarrow> 'a option" where
  "py_index xs i =
     (if 0 \<le> i \<and> i < int (length xs) then Some (xs ! nat i)
      else if i < 0 \<and> - int (length xs) \<le> i then Some (xs ! nat (int (length xs) + i))
      else None)"

text \<open>
  The variables of the loop: the cursor \<open>i\<close>, the step list, the counter
  \<open>attempts\<close>, the flag \<open>should_regenerate_steps\<close> of the session, the number of entries
  of \<open>failed_steps\<close>, and the number of iterations so far. The list \<open>results\<close> is left
  out: after the loop it is only searched for the key \<open>ai_recovery_suggested\<close>, which
  no entry has.
\<close>

record loop_state =
  cursor :: int
  step_list :: "pydict list"
  attempts :: nat
  regenerate_flag :: bool
  failed_steps :: nat
  iterations :: nat

text \<open>
  The \<open>while i < len(steps) and attempts != 5\<close> loop. The result is \<open>None\<close> when the
  fuel runs out (the loop need not end: \<open>continue\<close> after a failed \<open>makedirs\<close> repeats
  the step), otherwise the value of a \<open>return\<close> inside the loop, if any, and the
  variables at the end.
\<close>

fun run_steps ::
  "nat \<Rightarrow> project_env \<Rightarrow> loop_state \<Rightarrow> (creation_result option \<times> loop_state) option" where
  "run_steps 0 env st = None"
| "run_steps (Suc fuel) env st =
     (if \<not> (cursor st < int (length (step_list st)) \<and> attempts st \<noteq> 5)
      then Some (None, st)
      else case py_index (step_list st) (cursor st) of
        None \<Rightarrow> Some (Some CreationFailed, st)
      | Some step_data \<Rightarrow>
          if regenerate_flag st
          then (case regenerations env (iterations st) of
                  Generated new_steps \<Rightarrow>
                    if new_steps \<noteq> []
                    then run_steps fuel env
                           (st\<lparr>cursor := - 1, step_list := new_steps,
                               attempts := attempts st + 1, regenerate_flag := False,
                               iterations := iterations st + 1\<rparr>)
                    else Some (Some (RegenerateStepsFailed (cursor st)),
                               st\<lparr>regenerate_flag := False\<rparr>)
                | NotGenerated \<Rightarrow>
                    Some (Some (RegenerateStepsFailed (cursor st)),
                          st\<lparr>regenerate_flag := False\<rparr>)
                | RegenerationRaises \<Rightarrow>
                    Some (Some (RegenerateStepsError (cursor st)),
                          st\<lparr>regenerate_flag := False\<rparr>))
          else (case step_events env (iterations st) step_data of
                  Succeeds \<Rightarrow>
                    run_steps fuel env
                      (st\<lparr>cursor := cursor st + 1, iterations := iterations st + 1\<rparr>)
                | DirectoryFails \<Rightarrow>
                    run_steps fuel env
                      (st\<lparr>failed_steps := failed_steps st + 1,
                          iterations := iterations st + 1\<rparr>)
                | StepRaises \<Rightarrow>
                    run_steps fuel env
                      (st\<lparr>cursor := cursor st + 1, failed_steps := failed_steps st + 1,
                          iterations := iterations st + 1\<rparr>)
                | Fails AlternativeWorks \<Rightarrow>
                    run_steps fuel env
                      (st\<lparr>cursor := cursor st + 1, iterations := iterations st + 1\<rparr>)
                | Fails (AlternativeFails switched) \<Rightarrow>
                    run_steps fuel env
                      (st\<lparr>cursor := cursor st + 1, regenerate_flag := switched,
                          iterations := iterations st + 1\<rparr>)
                | Fails (SwitchNeeded switched) \<Rightarrow>
                    Some (None, st\<lparr>regenerate_flag := switched\<rparr>)
                | Fails RecoveryError \<Rightarrow>
                    run_steps fuel env
                      (st\<lparr>cursor := cursor st + 1, failed_steps := failed_steps st + 1,
                          iterations := iterations st + 1\<rparr>)))"

text \<open>
  The handler: with the flag set on entry the steps are regenerated first (a failure
  there keeps the given steps); the project directory is created (an exception ends
  the run with status \<open>creation_failed\<close>); the loop runs; then the flag decides between
  \<open>regenerate_steps_needed\<close> and the completion report, whose success rate divides by
  the number of steps. The second component is the value of \<open>attempts\<close>, the number of
  regenerations inside the loop.
\<close>

definition create_project_with_steps ::
  "nat \<Rightarrow> project_env \<Rightarrow> SessionState \<Rightarrow> pydict list
     \<Rightarrow> (creation_result \<times> nat) option" where
  "create_project_with_steps fuel env s given_steps =
     (let first_steps =
            (if should_regenerate_steps s
             then (case entry_regeneration env of
                     Generated new_steps \<Rightarrow> if new_steps \<noteq> [] then new_steps else given_steps
                   | other \<Rightarrow> given_steps)
             else given_steps)
      in if \<not> project_directory_ok env then Some (CreationFailed, 0)
         else case run_steps fuel env
                     \<lparr>cursor = 0, step_list = first_steps, attempts = 0,
                      regenerate_flag = False, failed_steps = 0, iterations = 0\<rparr> of
                None \<Rightarrow> None
              | Some (Some returned, st) \<Rightarrow> Some (returned, attempts st)
              | Some (None, st) \<Rightarrow>
                  if regenerate_flag st then Some (RegenerateStepsNeeded, attempts st)
                  else if step_list st = [] then Some (CreationFailed, attempts st)
                  else Some (ExecutionCompleted
                               (int (length (step_list st)) - int (failed_steps st))
                               (length (step_list st)) (failed_steps st),
                             attempts st))"

text \<open>
  A host on which every command fails, the offered alternative fails as well and every
  technology switch succeeds, with a reasoning capability that regenerates two steps
  each time.
\<close>

definition two_steps :: "pydict list" where
  "two_steps =
     [[(''command'', PStr ''npx create-app todo''), (''description'', PStr ''Create app'')],
      [(''command'', PStr ''npm install''), (''description'', PStr ''Install dependencies'')]]"

definition failing_env :: project_env where
  "failing_env =
     \<lparr>step_events = (\<lambda>n step. Fails (AlternativeFails True)),
      regenerations = (\<lambda>n. Generated two_steps),
      entry_regeneration = Generated two_steps,
      project_directory_ok = True\<rparr>"

section \<open>Properties of the state machine\<close>

lemma valid_from_COMPLETED:
  "current_state s = COMPLETED \<Longrightarrow>
   get_valid_transitions s =
     (if error_message s \<noteq> None
      then [\<lparr>from_state = COMPLETED, to_state = ERROR,
              condition = Some (\<lambda>s. error_message s \<noteq> None)\<rparr>,
            \<lparr>from_state = COMPLETED, to_state = ABORTED, condition = None\<rparr>]
      else [\<lparr>from_state = COMPLETED, to_state = ABORTED, condition = None\<rparr>])"
  by (simp add: get_valid_transitions_def transitions_def all_states_def
      error_transitions_def can_transition_def)

text \<open>
  C10: in state COMPLETED with no error message, the unconditional transition to
  ABORTED is the first valid one, and \<open>auto_transition\<close> takes it: COMPLETED is not a
  fixpoint.
\<close>

theorem completed_auto_transitions_to_aborted:
  assumes "current_state s = COMPLETED" and "error_message s = None"
  shows "auto_transition now s = (Some ABORTED, update_state now ABORTED s) \<and>
         current_state (snd (auto_transition now s)) = ABORTED \<and>
         snd (auto_transition now s) \<noteq> s"
proof -
  have v: "get_valid_transitions s =
             [\<lparr>from_state = COMPLETED, to_state = ABORTED, condition = None\<rparr>]"
    using assms by (simp add: valid_from_COMPLETED)
  have a: "auto_transition now s = (Some ABORTED, update_state now ABORTED s)"
    by (simp add: auto_transition_def v execute_transition_def update_state_def)
  have c: "current_state (update_state now ABORTED s) = ABORTED"
    by (simp add: update_state_def)
  have "current_state (update_state now ABORTED s) \<noteq> current_state s"
    using assms c by simp
  then have "update_state now ABORTED s \<noteq> s" by auto
  with a c show ?thesis by simp
qed

theorem completed_auto_transitions_to_aborted_witness:
  "current_state (demo_session\<lparr>current_state := COMPLETED\<rparr>) = COMPLETED \<and>
   error_message (demo_session\<lparr>current_state := COMPLETED\<rparr>) = None \<and>
   current_state (snd (auto_transition 7 (demo_session\<lparr>current_state := COMPLETED\<rparr>)))
     = ABORTED"
proof -
  have h1: "current_state (demo_session\<lparr>current_state := COMPLETED\<rparr>) = COMPLETED"
    by simp
  have h2: "error_message (demo_session\<lparr>current_state := COMPLETED\<rparr>) = None"
    by (simp add: demo_session_def)
  show ?thesis
    using h1 h2 completed_auto_transitions_to_aborted [OF h1 h2, of 7] by blast
qed

lemma next_state_cases:
  "next_state st e =
     (case get_valid_transitions (e\<lparr>current_state := st\<rparr>) of
        [] \<Rightarrow> st | t # ts \<Rightarrow> to_state t)"
  by (simp add: next_state_def auto_transition_def execute_transition_def update_state_def
      Let_def split: list.splits)

lemma next_state_COMPLETED: "next_state st e = COMPLETED \<Longrightarrow> st = VERIFYING"
  by (cases st)
    (auto simp: next_state_cases get_valid_transitions_def transitions_def all_states_def
      error_transitions_def can_transition_def split: if_splits option.splits)

lemma next_state_VERIFYING: "next_state st e = VERIFYING \<Longrightarrow> st = EXECUTING"
  by (cases st)
    (auto simp: next_state_cases get_valid_transitions_def transitions_def all_states_def
      error_transitions_def can_transition_def split: if_splits option.splits)

lemma auto_run_Cons: "auto_run st (e # es) = st # auto_run (next_state st e) es"
  by (simp add: next_state_def)

lemma verifying_before_completed:
  "st \<noteq> COMPLETED \<Longrightarrow> COMPLETED \<in> set (auto_run st envs) \<Longrightarrow>
   before VERIFYING COMPLETED (auto_run st envs)"
proof (induction envs arbitrary: st)
  case Nil
  then show ?case by simp
next
  case (Cons e es)
  show ?case
  proof (cases "st = VERIFYING")
    case True
    then show ?thesis by (simp add: auto_run_Cons del: auto_run.simps)
  next
    case False
    then have n: "next_state st e \<noteq> COMPLETED" using next_state_COMPLETED by blast
    from Cons.prems have "COMPLETED \<in> set (auto_run (next_state st e) es)"
      by (simp add: auto_run_Cons del: auto_run.simps)
    with n Cons.IH have "before VERIFYING COMPLETED (auto_run (next_state st e) es)"
      by blast
    with False Cons.prems(1) show ?thesis
      by (simp add: auto_run_Cons del: auto_run.simps)
  qed
qed

lemma executing_before_both:
  "st \<noteq> COMPLETED \<Longrightarrow> st \<noteq> VERIFYING \<Longrightarrow> COMPLETED \<in> set (auto_run st envs) \<Longrightarrow>
   before EXECUTING VERIFYING (auto_run st envs) \<and>
   before EXECUTING COMPLETED (auto_run st envs)"
proof (induction envs arbitrary: st)
  case Nil
  then show ?case by simp
next
  case (Cons e es)
  show ?case
  proof (cases "st = EXECUTING")
    case True
    then show ?thesis by (simp add: auto_run_Cons del: auto_run.simps)
  next
    case False
    with Cons.prems have n: "next_state st e \<noteq> COMPLETED" "next_state st e \<noteq> VERIFYING"
      using next_state_COMPLETED next_state_VERIFYING by blast+
    from Cons.prems have "COMPLETED \<in> set (auto_run (next_state st e) es)"
      by (simp add: auto_run_Cons del: auto_run.simps)
    with n Cons.IH have
      "before EXECUTING VERIFYING (auto_run (next_state st e) es) \<and>
       before EXECUTING COMPLETED (auto_run (next_state st e) es)"
      by blast
    with False Cons.prems(1,2) show ?thesis
      by (simp add: auto_run_Cons del: auto_run.simps)
  qed
qed

lemma demo_run:
  "auto_run INIT (replicate 8 demo_session) =
     [INIT, ASK_PROJECT_TYPE, ASK_PROJECT_NAME_FOLDER, CHECK_SYSTEM_CAPABILITIES,
      VALIDATE_INFO, PLANNING, EXECUTING, VERIFYING, COMPLETED]"
  by (simp add: numeral_eq_Suc demo_session_def default_requirements_def demo_step_def
      auto_transition_def get_valid_transitions_def transitions_def all_states_def
      error_transitions_def can_transition_def execute_transition_def update_state_def)

text \<open>
  C7: whatever data the session holds at each call (so in particular when it holds a
  non-empty execution plan), a run of \<open>auto_transition\<close> steps that starts outside
  VERIFYING and COMPLETED (a new session starts in INIT) and reaches COMPLETED has
  visited EXECUTING and then VERIFYING before its first visit of COMPLETED.
\<close>

theorem completed_only_via_executing_and_verifying:
  assumes "st \<noteq> VERIFYING" and "st \<noteq> COMPLETED"
    and "COMPLETED \<in> set (auto_run st envs)"
  shows "before EXECUTING VERIFYING (auto_run st envs) \<and>
         before VERIFYING COMPLETED (auto_run st envs) \<and>
         before EXECUTING COMPLETED (auto_run st envs)"
  using assms executing_before_both [of st envs] verifying_before_completed [of st envs]
  by blast

theorem completed_only_via_executing_and_verifying_witness:
  "INIT \<noteq> VERIFYING \<and> INIT \<noteq> COMPLETED \<and>
   COMPLETED \<in> set (auto_run INIT (replicate 8 demo_session)) \<and>
   before EXECUTING VERIFYING (auto_run INIT (replicate 8 demo_session)) \<and>
   before VERIFYING COMPLETED (auto_run INIT (replicate 8 demo_session)) \<and>
   before EXECUTING COMPLETED (auto_run INIT (replicate 8 demo_session))"
proof -
  have m: "COMPLETED \<in> set (auto_run INIT (replicate 8 demo_session))"
    by (simp add: demo_run)
  show ?thesis
    using m completed_only_via_executing_and_verifying [of INIT "replicate 8 demo_session"]
    by simp
qed

section \<open>Properties of the session store\<close>

text \<open>
  C6: loading a stored session document whose \<open>updated_at\<close> plus the inactivity
  timeout is earlier than the clock returns (it neither raises nor hangs) that session
  with state ERROR and the error message "Session expired"; the directory is unchanged.
\<close>

theorem load_expired_session:
  assumes "dir sid = Some (Document s)" and "updated_at s + session_timeout < now"
  shows "\<exists>s'. load_state now session_timeout write_ok uuid dir sid = Returns (s', dir) \<and>
           current_state s' = ERROR \<and> error_message s' = Some ''Session expired'' \<and>
           s' = s\<lparr>current_state := ERROR, error_message := Some ''Session expired''\<rparr>"
  using assms by (simp add: load_state_def is_session_expired_def)

theorem load_expired_session_witness:
  "(Map.empty(''s1'' \<mapsto> Document demo_session)) ''s1'' = Some (Document demo_session) \<and>
   updated_at demo_session + 3600 < 3601 \<and>
   (\<exists>s'. load_state 3601 3600 True ''u'' (Map.empty(''s1'' \<mapsto> Document demo_session)) ''s1''
            = Returns (s', Map.empty(''s1'' \<mapsto> Document demo_session)) \<and>
          current_state s' = ERROR \<and> error_message s' = Some ''Session expired'' \<and>
          s' = demo_session\<lparr>current_state := ERROR,
                              error_message := Some ''Session expired''\<rparr>)"
proof -
  have h1: "(Map.empty(''s1'' \<mapsto> Document demo_session)) ''s1'' = Some (Document demo_session)"
    by simp
  have h2: "updated_at demo_session + 3600 < 3601"
    by (simp add: demo_session_def)
  show ?thesis
    using h1 h2
      load_expired_session [where dir = "Map.empty(''s1'' \<mapsto> Document demo_session)"
        and sid = "''s1''" and s = demo_session and session_timeout = 3600 and now = 3601
        and write_ok = True and uuid = "''u''"]
    by blast
qed

section \<open>Properties of the execution engine\<close>

lemma str_nat_30: "str_nat 30 = ''30''"
  by code_simp

lemma execute_step_exits:
  assumes "send_ok ws ''command_output''" and "send_ok ws ''command_complete''"
    and "py_split (command step) \<noteq> []"
    and "host (py_split (command step)) (step_cwd step) (timeout step) = Exits code out err"
  shows "execute_step ws host step i = Returns (make_result i step code out err)"
  using assms by (simp add: execute_step_def execute_step_try_def finish_step_def Let_def)

lemma execute_plan_loop_extends:
  "execute_plan_loop ws hosts i xs rs = Returns final \<Longrightarrow> \<exists>ys. final = rs @ ys"
proof (induction xs arbitrary: i rs)
  case Nil
  then show ?case by simp
next
  case (Cons step rest)
  then show ?case
    by (fastforce simp: Let_def split: if_splits outcome.splits)
qed

text \<open>
  C9 as stated fails: with a websocket attached whose connection is closed, the
  \<open>command_error\<close> notification of the exception handler raises, and the exception
  leaves \<open>execute_step\<close>. Here the command is empty.
\<close>

theorem execute_step_raises_on_closed_websocket:
  "execute_step closed_websocket demo_host empty_step 0 = Raises (SendFailed ''command_error'')"
  by (simp add: execute_step_def execute_step_try_def closed_websocket_def empty_step_def
      demo_step_def py_split_def send_ok_def)

text \<open>
  C9, amended: when no websocket is attached, or the attached one delivers the
  \<open>command_error\<close> notification, \<open>execute_step\<close> returns a result for every step and
  every host; the result's \<open>success\<close> holds exactly when its exit code is 0; and an
  empty command, a failure to start the process and a timeout each give
  \<open>success = False\<close> with exit code 1.
\<close>

theorem execute_step_total:
  assumes "send_ok ws ''command_error''"
  shows "\<exists>r. execute_step ws host step idx = Returns r \<and>
           (success r \<longleftrightarrow> exit_code r = 0) \<and>
           ((py_split (command step) = [] \<or>
             (\<exists>m. host (py_split (command step)) (step_cwd step) (timeout step)
                    = SpawnFails m) \<or>
             (\<exists>out err. host (py_split (command step)) (step_cwd step) (timeout step)
                    = TimesOut out err))
            \<longrightarrow> \<not> success r \<and> exit_code r = 1)"
  using assms
  by (auto simp: execute_step_def execute_step_try_def finish_step_def Let_def
      make_result_def failure_result_def
      split: sum.splits proc_outcome.splits if_splits)

theorem execute_step_total_witness:
  "send_ok None ''command_error'' \<and>
   execute_step None demo_host empty_step 0
     = Returns (failure_result 0 empty_step ''Empty command'') \<and>
   \<not> success (failure_result 0 empty_step ''Empty command'') \<and>
   exit_code (failure_result 0 empty_step ''Empty command'') = 1"
proof -
  have h: "send_ok None ''command_error''"
    by (simp add: send_ok_def)
  have e: "execute_step None demo_host empty_step 0
             = Returns (failure_result 0 empty_step ''Empty command'')"
    by (simp add: execute_step_def execute_step_try_def empty_step_def demo_step_def
        py_split_def send_ok_def)
  show ?thesis
    using h e execute_step_total [OF h, of demo_host empty_step 0]
    by (simp add: failure_result_def)
qed

text \<open>
  C8 as stated fails: a plan can contain such a step behind a step that fails without
  a fallback; \<open>execute_plan\<close> stops there and reports nothing for the later step.
  And with a closed websocket \<open>execute_plan\<close> raises at the first notification.
\<close>

theorem execute_plan_stops_before_recoverable_step:
  "always_fails steady_hosts recovering_step \<and>
   has_fallback recovering_step \<and>
   always_succeeds steady_hosts (fallback_step recovering_step) \<and>
   execute_plan None steady_hosts \<lparr>steps = [failing_step, recovering_step], total_steps = 2\<rparr>
     = Returns [\<lparr>step_index = 0, res_command = ''false'', success = False, stdout = [],
                 stderr = [], exit_code = 1, fallback_used = False, res_retry_count = 0\<rparr>] \<and>
   execute_plan closed_websocket steady_hosts \<lparr>steps = [recovering_step], total_steps = 1\<rparr>
     = Raises (SendFailed ''command_start'')"
  by (simp add: closed_websocket_def always_fails_def always_succeeds_def has_fallback_def fallback_step_def
      steady_hosts_def demo_host_def recovering_step_def failing_step_def demo_step_def
      py_split_def is_space_def step_cwd_def execute_plan_def execute_step_def
      execute_step_try_def finish_step_def make_result_def send_ok_def Let_def)

text \<open>
  C8, amended: whenever the loop of \<open>execute_plan\<close> comes to a step whose command
  always fails with a non-zero exit and whose fallback command always succeeds, and
  the notifications are delivered (or no websocket is attached), it appends the failed
  result of the command and then the result of the fallback, successful and with
  \<open>fallback_used = True\<close> under the same step index, and goes on with the next step;
  whatever it finally returns extends these results.
\<close>

theorem fallback_recovers_step:
  assumes "\<forall>t. send_ok ws t" and "always_fails hosts step" and "has_fallback step"
    and "always_succeeds hosts (fallback_step step)"
  shows "\<exists>r1 r2. execute_plan_loop ws hosts i (step # rest) results
                   = execute_plan_loop ws hosts (i + 1) rest (results @ [r1, r2]) \<and>
           step_index r1 = i \<and> \<not> success r1 \<and>
           step_index r2 = i \<and> success r2 \<and> fallback_used r2 \<and>
           (\<forall>final. execute_plan_loop ws hosts i (step # rest) results = Returns final
              \<longrightarrow> (\<exists>ys. final = results @ [r1, r2] @ ys))"
proof -
  from assms(2) obtain code out err where
    h: "hosts (length results) (py_split (command step)) (step_cwd step) (timeout step)
          = Exits code out err"
    and c: "code \<noteq> 0" and p: "py_split (command step) \<noteq> []"
    unfolding always_fails_def by blast
  from assms(4) obtain out2 err2 where
    h2: "hosts (Suc (length results)) (py_split (command (fallback_step step)))
           (step_cwd (fallback_step step)) (timeout (fallback_step step)) = Exits 0 out2 err2"
    and p2: "py_split (command (fallback_step step)) \<noteq> []"
    unfolding always_succeeds_def by blast
  let ?r1 = "make_result i step code out err"
  let ?r2 = "(make_result i (fallback_step step) 0 out2 err2)\<lparr>fallback_used := True\<rparr>"
  have e1: "execute_step ws (hosts (length results)) step i = Returns ?r1"
    using assms(1) p h by (simp add: execute_step_exits)
  have e2: "execute_step ws (hosts (Suc (length results))) (fallback_step step) i
              = Returns (make_result i (fallback_step step) 0 out2 err2)"
    using assms(1) p2 h2 by (simp add: execute_step_exits)
  have l: "execute_plan_loop ws hosts i (step # rest) results
             = execute_plan_loop ws hosts (i + 1) rest (results @ [?r1, ?r2])"
    using assms(1,3) c e1 e2 by (simp add: make_result_def Let_def)
  have r: "step_index ?r1 = i \<and> \<not> success ?r1 \<and>
           step_index ?r2 = i \<and> success ?r2 \<and> fallback_used ?r2"
    using c by (simp add: make_result_def)
  have f: "\<forall>final. execute_plan_loop ws hosts i (step # rest) results = Returns final
             \<longrightarrow> (\<exists>ys. final = results @ [?r1, ?r2] @ ys)"
    using l execute_plan_loop_extends [of ws hosts "i + 1" rest "results @ [?r1, ?r2]"]
    by auto
  from l r f show ?thesis by blast
qed

theorem fallback_recovers_step_witness:
  "(\<forall>t. send_ok None t) \<and> always_fails steady_hosts recovering_step \<and>
   has_fallback recovering_step \<and>
   always_succeeds steady_hosts (fallback_step recovering_step) \<and>
   (\<exists>r1 r2. execute_plan_loop None steady_hosts 0 [recovering_step, failing_step] []
              = execute_plan_loop None steady_hosts 1 [failing_step] [r1, r2] \<and>
            step_index r1 = 0 \<and> \<not> success r1 \<and>
            step_index r2 = 0 \<and> success r2 \<and> fallback_used r2)"
proof -
  have h1: "\<forall>t. send_ok None t"
    by (simp add: send_ok_def)
  have h2: "always_fails steady_hosts recovering_step"
    by (simp add: always_fails_def steady_hosts_def demo_host_def recovering_step_def
        demo_step_def py_split_def is_space_def step_cwd_def)
  have h3: "has_fallback recovering_step"
    by (simp add: has_fallback_def recovering_step_def demo_step_def)
  have h4: "always_succeeds steady_hosts (fallback_step recovering_step)"
    by (simp add: always_succeeds_def steady_hosts_def demo_host_def recovering_step_def
        fallback_step_def demo_step_def py_split_def is_space_def step_cwd_def)
  show ?thesis
    using h1 h2 h3 h4
      fallback_recovers_step [OF h1 h2 h3 h4, of 0 "[failing_step]" "[]"]
    by auto
qed

section \<open>Properties of the action registry\<close>

lemma blocked_is_not_update:
  "n \<in> set (init_blocked_functions s) \<Longrightarrow> n \<noteq> ''update_project_requirements''"
  by (auto simp: init_blocked_functions_def Let_def split: if_splits)

lemma recovery_leaves_INIT:
  "handle_missing_requirements fns extract ws now n s = (b, s1) \<Longrightarrow>
   current_state s1 = INIT \<Longrightarrow> \<not> b"
  by (auto simp: handle_missing_requirements_def Let_def
      split: if_splits option.splits prod.splits sum.splits)

lemma recovery_independent_of_handler:
  "n \<noteq> ''update_project_requirements'' \<Longrightarrow>
   handle_missing_requirements (fns(n \<mapsto> h')) extract ws now n s
     = handle_missing_requirements fns extract ws now n s"
  by (simp add: handle_missing_requirements_def Let_def)

text \<open>
  C2 as stated fails: \<open>ask_user_preference\<close> is on no allow-list of INIT, neither the
  one of \<open>_validate_function_for_state\<close> nor the one of
  \<open>_get_allowed_functions_for_state\<close>, yet in a new session it is dispatched: the
  handler runs, stores its question and the result has status \<open>waiting_for_user\<close>.
  Besides, a name that is not registered is answered with status \<open>failed\<close>, and with
  a closed websocket the start notification raises before any check.
\<close>

theorem unlisted_action_is_dispatched:
  "''ask_user_preference'' \<notin> set (init_allowed_functions (new_session 0 ''s1'')) \<and>
   ''ask_user_preference'' \<notin> set (get_allowed_functions_for_state INIT) \<and>
   current_state (new_session 0 ''s1'') = INIT \<and>
   execute core_functions no_extract None 5 ask_database (new_session 0 ''s1'') =
     (Inr [(''status'', PStr ''waiting_for_user''), (''field'', PStr ''database'')],
      (new_session 0 ''s1'')
        \<lparr>pending_question := Some database_question, waiting_for_user := True,
         function_results :=
           [RegistryEntry (PStr ''ask_user_preference'') (fc_arguments ask_database)
              [(''status'', PStr ''waiting_for_user''), (''field'', PStr ''database'')] 5]\<rparr>) \<and>
   execute core_functions no_extract None 5 unknown_call (new_session 0 ''s1'') =
     (Inr (failed_result ''Unknown function: delete_everything''), new_session 0 ''s1'') \<and>
   execute marked_functions no_extract closed_websocket 5 generate_call (new_session 0 ''s1'') =
     (Inl (SendFailed ''function_execution_start''), new_session 0 ''s1'')"
  by (simp add: execute_def core_functions_def ask_database_def database_question_def
      unknown_call_def marked_functions_def generate_call_def closed_websocket_def
      new_session_def send_ok_def handle_missing_requirements_def
      validate_function_for_state_def init_blocked_functions_def init_allowed_functions_def
      get_allowed_functions_for_state_def requirements_set_def default_requirements_def
      ask_user_preference_def bind_kwargs_def dict_get_def Let_def)

text \<open>
  C2, amended: the dispatcher works with a block list, which only INIT has. When a
  registered action is invoked and, after the recovery check, the session is in INIT
  and the action is on INIT's block list, \<open>execute\<close> returns a result with status
  \<open>blocked_by_state_machine\<close> and the session as the recovery check left it; the
  handler of the action is not called, since the outcome is the same whatever handler
  is registered under that name. (The start notification must be deliverable, or no
  websocket attached.)
\<close>

theorem blocked_action_is_rejected_before_handler:
  assumes "fns (fc_name call) = Some h"
    and "send_ok ws ''function_execution_start''"
    and "handle_missing_requirements fns extract ws now (fc_name call) s = (b, s1)"
    and "current_state s1 = INIT"
    and "fc_name call \<in> set (init_blocked_functions s1)"
  shows "\<exists>res. execute fns extract ws now call s = (Inr res, s1) \<and>
           dict_get res ''status'' = PStr ''blocked_by_state_machine'' \<and>
           (\<forall>h'. execute (fns(fc_name call \<mapsto> h')) extract ws now call s = (Inr res, s1))"
proof -
  have nb: "\<not> b"
    using assms(3,4) recovery_leaves_INIT by blast
  have "validate_function_for_state (fc_name call) s1 \<noteq> None"
    using assms(4,5) by (simp add: validate_function_for_state_def)
  then obtain err where e: "validate_function_for_state (fc_name call) s1 = Some err"
    by blast
  have x: "execute fns extract ws now call s = (Inr (blocked_result err s1), s1)"
    using assms(1,2,3) nb e by (simp add: execute_def Let_def)
  have ne: "fc_name call \<noteq> ''update_project_requirements''"
    using assms(5) blocked_is_not_update by blast
  have y: "execute (fns(fc_name call \<mapsto> h')) extract ws now call s
             = (Inr (blocked_result err s1), s1)" for h'
    using assms(2,3) nb e ne
    by (simp add: execute_def Let_def recovery_independent_of_handler)
  have "dict_get (blocked_result err s1) ''status'' = PStr ''blocked_by_state_machine''"
    by (simp add: dict_get_def blocked_result_def)
  with x y show ?thesis by blast
qed

theorem blocked_action_is_rejected_before_handler_witness:
  "marked_functions (fc_name generate_call) = Some marking_handler \<and>
   send_ok None ''function_execution_start'' \<and>
   handle_missing_requirements marked_functions no_extract None 5 (fc_name generate_call)
     (new_session 0 ''s1'') = (False, new_session 0 ''s1'') \<and>
   current_state (new_session 0 ''s1'') = INIT \<and>
   fc_name generate_call \<in> set (init_blocked_functions (new_session 0 ''s1'')) \<and>
   (\<exists>res. execute marked_functions no_extract None 5 generate_call (new_session 0 ''s1'')
            = (Inr res, new_session 0 ''s1'') \<and>
          dict_get res ''status'' = PStr ''blocked_by_state_machine'')"
proof -
  have h1: "marked_functions (fc_name generate_call) = Some marking_handler"
    by (simp add: marked_functions_def generate_call_def)
  have h2: "send_ok None ''function_execution_start''"
    by (simp add: send_ok_def)
  have h3: "handle_missing_requirements marked_functions no_extract None 5
              (fc_name generate_call) (new_session 0 ''s1'') = (False, new_session 0 ''s1'')"
    by (simp add: generate_call_def handle_missing_requirements_def new_session_def
        requirements_set_def default_requirements_def
        extract_requirements_from_conversation_def)
  have h4: "current_state (new_session 0 ''s1'') = INIT"
    by (simp add: new_session_def)
  have h5: "fc_name generate_call \<in> set (init_blocked_functions (new_session 0 ''s1''))"
    by (simp add: generate_call_def init_blocked_functions_def new_session_def
        requirements_set_def default_requirements_def)
  show ?thesis
    using h1 h2 h3 h4 h5
      blocked_action_is_rejected_before_handler [OF h1 h2 h3 h4 h5]
    by blast
qed

section \<open>Properties of the orchestrator\<close>

text \<open>
  C3 as stated fails in its second half: after an answer that matches no option the
  turn goes on into \<open>_process_with_gemini\<close>. Here the answer \<open>mysql\<close> matches
  neither option of the database question, and the reasoning capability then invokes
  \<open>update_conversation_state\<close>, which is dispatched and moves the session from INIT
  to PLANNING in the same turn. With a closed websocket the \<open>choice_invalid\<close>
  notification raises, and the turn ends with an error message in the session.
\<close>

theorem invalid_choice_turn_goes_on:
  "find (option_matches (py_strip (py_lower ''mysql''))) [''sqlite'', ''postgresql''] = None \<and>
   current_state asked_database = INIT \<and>
   current_state (snd (process_conversation quiet_env
      [[set_state_call ''PLANNING'', FinishChunk]] ''mysql'' asked_database)) = PLANNING \<and>
   length (function_results (snd (process_conversation quiet_env
      [[set_state_call ''PLANNING'', FinishChunk]] ''mysql'' asked_database))) = 2 \<and>
   error_message asked_database = None \<and>
   error_message (snd (process_conversation closed_env [[FinishChunk]] ''mysql''
      asked_database)) = Some ''websocket send failed: choice_invalid''"
  by code_simp

text \<open>
  C3, amended: when a pending question of type choice is answered with input that
  matches no option (and the \<open>choice_invalid\<close> notification is delivered, or no
  websocket is attached), the response handler reports the answer as invalid and
  appends the re-prompt to the history, after the user's message; the requirements,
  the question and the waiting flag are as before, and nothing but the history and its
  timestamp has changed. The turn does not stop there: \<open>process_conversation\<close>
  continues with \<open>_process_with_gemini\<close> on that session.
\<close>

theorem invalid_choice_reprompts:
  assumes "pending_question s = Some question"
    and "dict_get question ''type'' = PStr ''choice''"
    and "iterate_options (dict_get_default question ''options'' (PList [])) = Inr options"
    and "find (option_matches (py_strip (py_lower user_input))) options = None"
    and "send_ok (socket env) ''choice_invalid''"
  shows "\<exists>s1. handle_user_response env user_input
                 (add_message (clock env) ''user'' (Plain user_input) s) = (Inr False, s1) \<and>
           s1 = s\<lparr>conversation_history := conversation_history s @
                    [\<lparr>role = ''user'', content = Plain user_input,
                       msg_timestamp = clock env\<rparr>,
                     \<lparr>role = ''assistant'',
                       content = ChoiceNotUnderstood user_input options,
                       msg_timestamp = clock env\<rparr>],
                  updated_at := clock env\<rparr> \<and>
           requirements s1 = requirements s \<and>
           pending_question s1 = pending_question s \<and>
           waiting_for_user s1 = waiting_for_user s \<and>
           process_conversation_try env responses user_input s
             = process_with_gemini env responses s1"
proof -
  have ne: "question \<noteq> []"
    using assms(2) by (auto simp: dict_get_def)
  let ?s0 = "add_message (clock env) ''user'' (Plain user_input) s"
  have pt: "pending_truthy ?s0"
    using assms(1) ne by (simp add: pending_truthy_def add_message_def)
  have q: "the (pending_question ?s0) = question"
    using assms(1) by (simp add: add_message_def)
  have h: "handle_user_response env user_input ?s0 =
             (Inr False, add_message (clock env) ''assistant''
                           (ChoiceNotUnderstood user_input options) ?s0)"
    using pt q assms(2,3,4,5)
    by (simp add: handle_user_response_def handle_choice_def Let_def)
  show ?thesis
    using h pt by (simp add: process_conversation_try_def Let_def add_message_def)
qed

theorem invalid_choice_reprompts_witness:
  "pending_question asked_database = Some database_question \<and>
   dict_get database_question ''type'' = PStr ''choice'' \<and>
   iterate_options (dict_get_default database_question ''options'' (PList []))
     = Inr [''sqlite'', ''postgresql''] \<and>
   find (option_matches (py_strip (py_lower ''mysql''))) [''sqlite'', ''postgresql''] = None \<and>
   send_ok (socket quiet_env) ''choice_invalid'' \<and>
   (\<exists>s1. handle_user_response quiet_env ''mysql''
            (add_message (clock quiet_env) ''user'' (Plain ''mysql'') asked_database)
            = (Inr False, s1) \<and>
          pending_question s1 = pending_question asked_database \<and>
          waiting_for_user s1 = waiting_for_user asked_database \<and>
          process_conversation_try quiet_env [[FinishChunk]] ''mysql'' asked_database
            = process_with_gemini quiet_env [[FinishChunk]] s1)"
proof -
  have h1: "pending_question asked_database = Some database_question"
    by (simp add: asked_database_def)
  have h2: "dict_get database_question ''type'' = PStr ''choice''"
    by (simp add: database_question_def dict_get_def)
  have h3: "iterate_options (dict_get_default database_question ''options'' (PList []))
              = Inr [''sqlite'', ''postgresql'']"
    by (simp add: database_question_def dict_get_default_def iterate_options_def)
  have h4: "find (option_matches (py_strip (py_lower ''mysql'')))
              [''sqlite'', ''postgresql''] = None"
    by code_simp
  have h5: "send_ok (socket quiet_env) ''choice_invalid''"
    by (simp add: quiet_env_def send_ok_def)
  show ?thesis
    using h1 h2 h3 h4 h5
      invalid_choice_reprompts [OF h1 h2 h3 h4 h5, of "[[FinishChunk]]"]
    by blast
qed

text \<open>
  C4: the code does not keep the bound. Each dispatched call is recorded twice, by
  \<open>execute\<close> and by the orchestrator, and the orchestrator drops one entry when there
  are more than 10: from the eleventh entry on the history grows by one entry per
  call. After six calls in a turn of a new session it holds 11 entries.
\<close>

theorem function_results_exceed_bound:
  "function_results (new_session 0 ''s1'') = [] \<and>
   length (function_results (snd (process_conversation quiet_env
      [replicate 6 (set_state_call ''PLANNING'') @ [FinishChunk]] ''go''
      (new_session 0 ''s1'')))) = 11"
  by code_simp

section \<open>The session invariant over a turn\<close>

lemma question_protocol_inv:
  "keeps_question_protocol fns \<Longrightarrow> fns name = Some h \<Longrightarrow> session_invariant s \<Longrightarrow>
   h s ws args now = (r, s') \<Longrightarrow> session_invariant s'"
  unfolding keeps_question_protocol_def by blast

lemma question_protocol_status:
  "keeps_question_protocol fns \<Longrightarrow> fns name = Some h \<Longrightarrow> session_invariant s \<Longrightarrow>
   h s ws args now = (Inr res, s') \<Longrightarrow>
   dict_get res ''status'' = PStr ''waiting_for_user'' \<or> dict_get res ''status'' = PStr ''permission_requested'' \<Longrightarrow>
   pending_question s' \<noteq> None"
  unfolding keeps_question_protocol_def by blast

lemma inv_add_message: "session_invariant (add_message now r c s) = session_invariant s"
  by (simp add: session_invariant_def add_message_def)

lemma inv_update_state: "session_invariant (update_state now st s) = session_invariant s"
  by (simp add: session_invariant_def update_state_def)

lemma inv_auto_transition: "session_invariant (snd (auto_transition now s)) = session_invariant s"
  by (simp add: auto_transition_def execute_transition_def inv_update_state Let_def split: list.splits)

lemma inv_state: "session_invariant (s\<lparr>current_state := st\<rparr>) = session_invariant s"
  by (simp add: session_invariant_def)

lemma inv_handle_missing_requirements:
  assumes "keeps_question_protocol fns" "session_invariant s"
  shows "session_invariant (snd (handle_missing_requirements fns extract ws now n s))"
proof (cases "fns ''update_project_requirements''")
  case None
  then show ?thesis using assms(2)
    by (simp add: handle_missing_requirements_def Let_def)
next
  case (Some u)
  obtain r s' where h: "u s ws (extract_requirements_from_conversation extract s) now = (r, s')"
    by (cases "u s ws (extract_requirements_from_conversation extract s) now")
  have i: "session_invariant s'" using question_protocol_inv[OF assms(1) Some assms(2) h] .
  show ?thesis
  proof (cases r)
    case (Inl e)
    then show ?thesis using assms(2) Some h i
      by (simp add: handle_missing_requirements_def Let_def)
  next
    case (Inr res)
    then show ?thesis using assms(2) Some h i
      by (simp add: handle_missing_requirements_def Let_def inv_state)
  qed
qed

lemma inv_execute_except:
  "session_invariant s \<Longrightarrow> session_invariant (snd (execute_except ws n e s))"
  by (simp add: execute_except_def)

lemma status_failed_result: "dict_get (failed_result m) ''status'' = PStr ''failed''"
  by (simp add: failed_result_def dict_get_def)

lemma status_blocked_result: "dict_get (blocked_result m s) ''status'' = PStr ''blocked_by_state_machine''"
  by (simp add: blocked_result_def dict_get_def)

lemma status_execute_except:
  "execute_except ws n e s = (Inr res, s') \<Longrightarrow> dict_get res ''status'' = PStr ''failed''"
  by (auto simp: execute_except_def status_failed_result split: if_splits)

lemma inv_results: "session_invariant (s\<lparr>function_results := x\<rparr>) = session_invariant s"
  by (simp add: session_invariant_def)

lemma pending_results: "pending_question (s\<lparr>function_results := x\<rparr>) = pending_question s"
  by simp

lemma except_ok:
  assumes "session_invariant s" "execute_except ws n e s = (r, s')"
  shows "session_invariant s' \<and> (\<forall>res. r = Inr res \<longrightarrow> waits res \<longrightarrow> pending_question s' \<noteq> None)"
proof -
  have s: "s' = s" using assms(2) by (auto simp: execute_except_def split: if_splits)
  have "\<not> waits res" if "r = Inr res" for res
    using status_execute_except[of ws n e s res s'] assms(2) that by (simp add: waits_def)
  with s assms(1) show ?thesis by blast
qed

lemma inv_execute:
  assumes "keeps_question_protocol fns" "session_invariant s"
    and "execute fns extract ws now call s = (r, s')"
  shows "session_invariant s' \<and>
         (\<forall>res. r = Inr res \<longrightarrow> waits res \<longrightarrow> pending_question s' \<noteq> None)"
proof (cases "fns (fc_name call)")
  case None
  then have "r = Inr (failed_result (''Unknown function: '' @ fc_name call))" "s' = s"
    using assms(3) by (auto simp: execute_def Let_def)
  then show ?thesis using assms(2) by (simp add: waits_def status_failed_result)
next
  case (Some h)
  show ?thesis
  proof (cases "send_ok ws ''function_execution_start''")
    case False
    then have "r = Inl (SendFailed ''function_execution_start'')" "s' = s"
      using assms(3) Some by (auto simp: execute_def Let_def)
    then show ?thesis using assms(2) by simp
  next
    case True
    obtain b s1 where hm: "handle_missing_requirements fns extract ws now (fc_name call) s = (b, s1)"
      by (cases "handle_missing_requirements fns extract ws now (fc_name call) s")
    have i1: "session_invariant s1"
      using inv_handle_missing_requirements[OF assms(1,2), of "extract" ws now "fc_name call"] hm by simp
    show ?thesis
    proof (cases "b \<and> \<not> send_ok ws ''auto_intervention''")
      case bt: True
      then have "execute_except ws (fc_name call) (SendFailed ''auto_intervention'') s1 = (r, s')"
        using assms(3) Some True hm by (simp add: execute_def Let_def)
      from except_ok[OF i1 this] show ?thesis .
    next
      case bf: False
      show ?thesis
      proof (cases "validate_function_for_state (fc_name call) s1")
        case (Some err)
        then have "r = Inr (blocked_result err s1)" "s' = s1"
          using assms(3) \<open>fns (fc_name call) = Some h\<close> True hm bf by (auto simp: execute_def Let_def)
        then show ?thesis using i1 by (simp add: waits_def status_blocked_result)
      next
        case None
        obtain hr s2 where hh: "h s1 ws (fc_arguments call) now = (hr, s2)"
          by (cases "h s1 ws (fc_arguments call) now")
        have i2: "session_invariant s2" using question_protocol_inv[OF assms(1) Some i1 hh] .
        show ?thesis
        proof (cases hr)
          case (Inl e)
          then have "execute_except ws (fc_name call) e s2 = (r, s')"
            using assms(3) Some True hm bf None hh by (simp add: execute_def Let_def)
          from except_ok[OF i2 this] show ?thesis .
        next
          case (Inr res)
          let ?s3 = "s2\<lparr>function_results := function_results s2
                         @ [RegistryEntry (PStr (fc_name call)) (fc_arguments call) res now]\<rparr>"
          have i3: "session_invariant ?s3" using i2 by (simp add: inv_results)
          have p3: "pending_question ?s3 \<noteq> None" if "waits res"
            using question_protocol_status[OF assms(1) Some i1 hh[unfolded Inr]] that by (simp add: waits_def)
          show ?thesis
          proof (cases "send_ok ws ''function_execution_complete''")
            case True
            then have "r = Inr res" "s' = ?s3"
              using assms(3) Some \<open>send_ok ws ''function_execution_start''\<close> hm bf None hh Inr
              by (auto simp: execute_def Let_def)
            then show ?thesis using i3 p3 by blast
          next
            case False
            then have "execute_except ws (fc_name call) (SendFailed ''function_execution_complete'') ?s3 = (r, s')"
              using assms(3) Some \<open>send_ok ws ''function_execution_start''\<close> hm bf None hh Inr
              by (simp add: execute_def Let_def)
            from except_ok[OF i3 this] show ?thesis .
          qed
        qed
      qed
    qed
  qed
qed

lemma inv_iter: "session_invariant (s\<lparr>iteration_count := n\<rparr>) = session_invariant s"
  by (simp add: session_invariant_def)

lemma inv_stamp: "session_invariant (stamp_session now s) = session_invariant s"
  by (simp add: stamp_session_def session_invariant_def)

lemma inv_advance_state: "session_invariant s \<Longrightarrow> session_invariant (snd (advance_state env b s))"
  by (simp add: advance_state_def Let_def inv_auto_transition)

lemma inv_close_iteration: "session_invariant (snd m) \<Longrightarrow> session_invariant (snd (close_iteration env b m))"
  by (cases m) (simp add: close_iteration_def Let_def inv_stamp inv_iter split: sum.splits)

lemma finish_turn_parts:
  "finish_turn env acc s =
     (let s1 = (if py_strip acc \<noteq> []
                then add_message (clock env) ''assistant'' (Plain acc) s
                else s)
      in case should_advance_workflow (socket env) s1 of
           Inl e \<Rightarrow> (Inl e, s1)
         | Inr should_transition \<Rightarrow> close_iteration env should_transition (advance_state env should_transition s1))"
  unfolding finish_turn_def advance_state_def close_iteration_def Let_def by (rule refl)

lemma inv_finish_turn:
  assumes "session_invariant s"
  shows "session_invariant (snd (finish_turn env acc s))"
proof -
  let ?s1 = "(if py_strip acc \<noteq> []
                then add_message (clock env) ''assistant'' (Plain acc) s
                else s)"
  have i1: "session_invariant ?s1" using assms by (simp add: inv_add_message)
  show ?thesis
  proof (cases "should_advance_workflow (socket env) ?s1")
    case (Inl e)
    then show ?thesis using i1 unfolding finish_turn_parts Let_def by simp
  next
    case (Inr b)
    then show ?thesis using inv_close_iteration[OF inv_advance_state[OF i1, of env b], of env b]
      unfolding finish_turn_parts Let_def by simp
  qed
qed

lemma pending_add_message: "pending_question (add_message n ro c s) = pending_question s"
  by (simp add: add_message_def)
lemma waiting_add_message: "waiting_for_user (add_message n ro c s) = waiting_for_user s"
  by (simp add: add_message_def)

lemma inv_emit: "session_invariant s \<Longrightarrow> session_invariant (snd (emit env t s))"
  by (simp add: emit_def)

lemma inv_on_status:
  assumes "keeps_question_protocol (function_registry env)" "session_invariant s"
  shows "session_invariant (snd (on_status env status s))"
proof -
  let ?call = "\<lparr>fc_name = ''execute_project_creation'',
                 fc_arguments = [(''confirm_execution'', PBool True)]\<rparr>"
  obtain r s1 where x: "execute (function_registry env) (extraction env) (socket env) (clock env) ?call s = (r, s1)"
    by (cases "execute (function_registry env) (extraction env) (socket env) (clock env) ?call s")
  have i1: "session_invariant s1" using inv_execute[OF assms x] by blast
  have c: "session_invariant (s\<lparr>capabilities_detected := True\<rparr>)"
    using assms(2) by (simp add: session_invariant_def)
  show ?thesis
    using assms(2) x i1 c
    by (auto simp: on_status_def emit_def inv_update_state split: sum.splits)
qed

lemma inv_store: "session_invariant (store_function_result now call st r s) = session_invariant s"
  by (simp add: store_function_result_def session_invariant_def Let_def)

lemma inv_handle_function_call:
  assumes "keeps_question_protocol (function_registry env)" "session_invariant s"
  shows "session_invariant (snd (handle_function_call env call s))"
proof -
  obtain r s1 where x: "execute (function_registry env) (extraction env) (socket env) (clock env) call s = (r, s1)"
    by (cases "execute (function_registry env) (extraction env) (socket env) (clock env) call s")
  note e = inv_execute[OF assms x]
  have i1: "session_invariant s1" using e by blast
  show ?thesis
  proof (cases r)
    case (Inl ex)
    then show ?thesis using x i1 assms(2) by (simp add: handle_function_call_def)
  next
    case (Inr res)
    obtain u s2 where o: "on_status env (dict_get res ''status'') s1 = (u, s2)"
      by (cases "on_status env (dict_get res ''status'') s1")
    have i2: "session_invariant s2"
      using inv_on_status[OF assms(1) i1, of "dict_get res ''status''"] o by simp
    have w: "session_invariant (s1\<lparr>waiting_for_user := True\<rparr>)"
      if "dict_get res ''status'' = PStr ''waiting_for_user'' \<or> dict_get res ''status'' = PStr ''permission_requested''"
      using e Inr that by (auto simp: session_invariant_def waits_def)
    show ?thesis
      using x Inr i1 i2 o w assms(2)
      by (auto simp: handle_function_call_def Let_def inv_store split: sum.splits)
  qed
qed

lemma inv_gemini_except:
  "session_invariant s \<Longrightarrow> session_invariant (snd (gemini_except env e s))"
  by (simp add: gemini_except_def Let_def inv_add_message)

lemma inv_handle_function_call_pair:
  "keeps_question_protocol (function_registry env) \<Longrightarrow> session_invariant s \<Longrightarrow>
   handle_function_call env call s = (x, s1) \<Longrightarrow> session_invariant s1"
  using inv_handle_function_call [of env s call] by simp

lemma inv_finish_pair:
  "session_invariant s \<Longrightarrow> finish_turn env acc s = (x, s1) \<Longrightarrow> session_invariant s1"
  using inv_finish_turn [of s env acc] by simp

lemma inv_process_chunks:
  "keeps_question_protocol (function_registry env) \<Longrightarrow> session_invariant s \<Longrightarrow>
   session_invariant (snd (process_chunks env rs cs acc s))"
proof (induction env rs cs acc s rule: process_chunks.induct)
  case (1 env responses accumulated s)
  then show ?case by simp
next
  case (2 env responses c cs accumulated s)
  note kq = "2.prems"(1) and iv = "2.prems"(2)
  show ?case
  proof (cases c)
    case (TextChunk t)
    then show ?thesis
      using "2.IH"(1) kq iv by (simp add: inv_gemini_except)
  next
    case (FunctionCallChunk call)
    obtain x s1 where h: "handle_function_call env call s = (x, s1)"
      by (cases "handle_function_call env call s")
    have i1: "session_invariant s1" using inv_handle_function_call_pair[OF kq iv h] .
    show ?thesis
    proof (cases x)
      case (Inl e)
      then show ?thesis using FunctionCallChunk h i1 by (simp add: inv_gemini_except)
    next
      case (Inr ctl)
      show ?thesis
      proof (cases ctl)
        case Continue
        then show ?thesis
          using FunctionCallChunk h Inr i1 kq "2.IH"(2)[OF FunctionCallChunk h[symmetric] Inr Continue]
          by simp
      next
        case Break
        then show ?thesis using FunctionCallChunk h Inr i1 by simp
      qed
    qed
  next
    case FinishChunk
    obtain x s1 where f: "finish_turn env accumulated s = (x, s1)"
      by (cases "finish_turn env accumulated s")
    have i1: "session_invariant s1" using inv_finish_pair[OF iv f] .
    show ?thesis
    proof (cases x)
      case (Inl e)
      then show ?thesis using FinishChunk f i1 by (simp add: inv_gemini_except)
    next
      case (Inr again)
      show ?thesis
      proof (cases again)
        case False
        then show ?thesis using FinishChunk f Inr i1 by simp
      next
        case True
        show ?thesis
        proof (cases responses)
          case Nil
          then show ?thesis using FinishChunk f Inr True i1 by simp
        next
          case (Cons r rest)
          have at: "again = True" using True by simp
          have i2: "session_invariant (snd (process_chunks env rest r [] s1))"
            using "2.IH"(3)[OF FinishChunk f[symmetric] Inr at Cons kq i1] .
          show ?thesis
            using FinishChunk f Inr True Cons i2
            by (auto simp: inv_gemini_except split: prod.splits option.splits)
        qed
      qed
    qed
  next
    case OtherChunk
    then show ?thesis using "2.IH"(4) kq iv by simp
  next
    case (StreamFails m)
    then show ?thesis using iv by (simp add: inv_gemini_except)
  qed
qed

lemma inv_process_with_gemini:
  "keeps_question_protocol (function_registry env) \<Longrightarrow> session_invariant s \<Longrightarrow>
   session_invariant (snd (process_with_gemini env rs s))"
  by (auto simp: process_with_gemini_def inv_process_chunks split: list.splits)

lemma handle_choice_cases:
  assumes "session_invariant s"
    and "send_ok (socket env) ''choice_accepted''"
    and "handle_choice env user_input question s = (r, s1)"
  shows "(r = Inr True \<and> pending_question s1 = None) \<or> (r \<noteq> Inr True \<and> session_invariant s1)"
  using assms
  by (auto simp: handle_choice_def Let_def session_invariant_def add_message_def
      split: sum.splits option.splits if_splits pyval.splits prod.splits)

lemma handle_permission_cases:
  assumes "session_invariant s"
    and "handle_permission env user_input question s = (r, s1)"
  shows "(r = Inr True \<and> pending_question s1 = None) \<or> (r \<noteq> Inr True \<and> session_invariant s1)"
proof (cases "py_strip (py_lower user_input) \<in> set [''yes'', ''y'', ''ok'', ''allow'', ''grant'', ''approve'']")
  case False
  let ?s1 = "add_message (clock env) ''assistant'' PermissionDeniedMsg s"
  have i: "session_invariant ?s1" using assms(1) by (simp add: inv_add_message)
  from False have "(r, s1) = (if \<not> send_ok (socket env) ''permission_denied''
              then (Inl (SendFailed ''permission_denied''), ?s1)
              else (Inr True, ?s1\<lparr>pending_question := None\<rparr>))"
    using assms(2) unfolding handle_permission_def Let_def by simp
  then show ?thesis using i by (auto split: if_splits)
next
  case True
  show ?thesis
  proof (cases "\<exists>ptype scope. dict_get question ''permission_type'' = PStr ptype \<and> dict_get question ''scope'' = PStr scope")
    case False
    then have "(r, s1) = (Inl (ValueError ''validation error for Permission''), s)"
      using assms(2) True unfolding handle_permission_def Let_def
      by (auto split: pyval.splits)
    then show ?thesis using assms(1) by simp
  next
    case ex: True
    then obtain ptype scope where d: "dict_get question ''permission_type'' = PStr ptype" "dict_get question ''scope'' = PStr scope"
      by blast
    let ?s2 = "add_message (clock env) ''assistant'' (PermissionGrantedFor (PStr scope))
       (s\<lparr>permissions := dict_set scope \<lparr>perm_type = ptype, perm_scope = scope, granted = True,
                                   perm_timestamp = clock env\<rparr> (permissions s)\<rparr>)"
    have i: "session_invariant ?s2" using assms(1) by (simp add: session_invariant_def add_message_def)
    have "(r, s1) = (if \<not> send_ok (socket env) ''permission_granted''
                   then (Inl (SendFailed ''permission_granted''), ?s2)
                   else (Inr True, (auto_detect env ?s2)\<lparr>pending_question := None\<rparr>))"
      using assms(2) True d unfolding handle_permission_def Let_def by simp
    then show ?thesis using i by (auto split: if_splits)
  qed
qed

lemma handle_user_response_cases:
  assumes "session_invariant s" "question_typed s" "pending_truthy s"
    and "send_ok (socket env) ''choice_accepted''"
    and "handle_user_response env user_input s = (r, s1)"
  shows "(r = Inr True \<and> pending_question s1 = None) \<or> (r \<noteq> Inr True \<and> session_invariant s1)"
proof -
  from assms(2,3) consider
    (c) "dict_get (the (pending_question s)) ''type'' = PStr ''choice''" |
    (p) "dict_get (the (pending_question s)) ''type'' = PStr ''permission''"
    unfolding question_typed_def by blast
  then show ?thesis
  proof cases
    case c
    then have "handle_choice env user_input (the (pending_question s)) s = (r, s1)"
      using assms(3,5) by (simp add: handle_user_response_def Let_def)
    from handle_choice_cases[OF assms(1,4) this] show ?thesis .
  next
    case p
    then have "handle_permission env user_input (the (pending_question s)) s = (r, s1)"
      using assms(3,5) by (simp add: handle_user_response_def Let_def)
    from handle_permission_cases[OF assms(1) this] show ?thesis .
  qed
qed

lemma inv_process_conversation_try:
  assumes "keeps_question_protocol (function_registry env)"
    and "session_invariant s" "question_typed s"
    and "send_ok (socket env) ''choice_accepted''"
  shows "session_invariant (snd (process_conversation_try env responses user_input s))"
proof -
  let ?s0 = "add_message (clock env) ''user'' (Plain user_input) s"
  have i0: "session_invariant ?s0" using assms(2) by (simp add: inv_add_message)
  have q0: "question_typed ?s0" using assms(3)
    by (simp add: question_typed_def pending_truthy_def add_message_def)
  show ?thesis
  proof (cases "pending_truthy ?s0")
    case False
    then show ?thesis
      using inv_process_with_gemini[OF assms(1) i0]
      by (simp add: process_conversation_try_def Let_def)
  next
    case True
    obtain r s1 where h: "handle_user_response env user_input ?s0 = (r, s1)"
      by (cases "handle_user_response env user_input ?s0")
    note c = handle_user_response_cases[OF i0 q0 True assms(4) h]
    show ?thesis
    proof (cases r)
      case (Inl e)
      then show ?thesis using c True h
        by (auto simp: process_conversation_try_def Let_def)
    next
      case (Inr valid)
      show ?thesis
      proof (cases "valid \<and> waiting_for_user s1")
        case False
        with c Inr have "session_invariant s1" by (auto simp: session_invariant_def)
        then show ?thesis
          using True h Inr False inv_process_with_gemini[OF assms(1), of s1 responses]
          by (auto simp: process_conversation_try_def Let_def)
      next
        case vw: True
        have "session_invariant (s1\<lparr>waiting_for_user := False\<rparr>)"
          using c vw Inr by (auto simp: session_invariant_def)
        then show ?thesis
          using True h Inr vw
            inv_process_with_gemini[OF assms(1), of "s1\<lparr>waiting_for_user := False\<rparr>" responses]
          by (auto simp: process_conversation_try_def Let_def)
      qed
    qed
  qed
qed

lemma core_functions_keep_question_protocol: "keeps_question_protocol core_functions"
  unfolding keeps_question_protocol_def
  by (auto simp: core_functions_def ask_user_preference_def request_permission_def
      update_conversation_state_def session_invariant_def update_state_def dict_get_def
      split: if_splits pyval.splits option.splits)

text \<open>
  C1 as stated fails, in three ways. A session that enters the turn with the waiting
  flag set and no question leaves it so; a pending question of another type than
  choice and permission is accepted by the default branch, which clears the waiting
  flag and keeps the question; and when the \<open>choice_accepted\<close> notification cannot
  be delivered after a valid choice, the question is cleared and the waiting flag stays.
\<close>

theorem turn_breaks_invariant:
  "\<not> session_invariant (snd (process_conversation quiet_env [[FinishChunk]] ''hello''
        ((new_session 0 ''s1'')\<lparr>waiting_for_user := True\<rparr>))) \<and>
   session_invariant asked_text \<and>
   \<not> session_invariant (snd (process_conversation quiet_env [[FinishChunk]] ''a todo app''
        asked_text)) \<and>
   session_invariant asked_database \<and>
   \<not> session_invariant (snd (process_conversation lossy_env [[FinishChunk]] ''Postgres''
        asked_database))"
  by code_simp

text \<open>
  C1, amended: a turn keeps the invariant. If the session satisfies it on entry, its
  pending question (if any) is of type choice or permission, the \<open>choice_accepted\<close>
  notification is delivered (or no websocket is attached), and the registered handlers
  keep the invariant and return \<open>waiting_for_user\<close> or \<open>permission_requested\<close> only
  with a question stored, then the invariant holds after \<open>process_conversation\<close>, for
  every user input and whatever the reasoning capability streams, whether the turn
  returns or raises.
\<close>

theorem turn_keeps_invariant:
  assumes "keeps_question_protocol (function_registry env)"
    and "session_invariant s" "question_typed s"
    and "send_ok (socket env) ''choice_accepted''"
  shows "session_invariant (snd (process_conversation env responses user_input s))"
  using inv_process_conversation_try[OF assms, of responses user_input]
  by (auto simp: process_conversation_def Let_def session_invariant_def split: prod.splits option.splits)


theorem turn_keeps_invariant_witness:
  "keeps_question_protocol (function_registry quiet_env) \<and>
   session_invariant asked_database \<and> question_typed asked_database \<and>
   send_ok (socket quiet_env) ''choice_accepted'' \<and>
   session_invariant (snd (process_conversation quiet_env [[FinishChunk]] ''Postgres''
      asked_database))"
proof -
  have h1: "keeps_question_protocol (function_registry quiet_env)"
    using core_functions_keep_question_protocol by (simp add: quiet_env_def)
  have h2: "session_invariant asked_database"
    by (simp add: session_invariant_def asked_database_def)
  have h3: "question_typed asked_database"
    by (simp add: question_typed_def asked_database_def database_question_def dict_get_def)
  have h4: "send_ok (socket quiet_env) ''choice_accepted''"
    by (simp add: quiet_env_def send_ok_def)
  show ?thesis
    using h1 h2 h3 h4
      turn_keeps_invariant [OF h1 h2 h3 h4, of "[[FinishChunk]]" "''Postgres''"]
    by blast
qed

section \<open>Properties of \<open>create_project_with_steps\<close>\<close>

text \<open>
  The counter of the loop never passes 5, whatever the host and the reasoning
  capability do: the cap on the regenerations inside one run holds.
\<close>

lemma run_steps_attempts:
  "run_steps fuel env st = Some (r, st') \<Longrightarrow> attempts st \<le> 5 \<Longrightarrow> attempts st' \<le> 5"
proof (induction fuel arbitrary: st)
  case 0
  then show ?case by simp
next
  case (Suc fuel)
  show ?case
  proof (cases "cursor st < int (length (step_list st)) \<and> attempts st \<noteq> 5")
    case False
    then show ?thesis using Suc.prems by auto
  next
    case True
    then have a: "attempts st + 1 \<le> 5" using Suc.prems(2) by simp
    show ?thesis
      using Suc.prems True a Suc.IH
      by (auto split: option.splits if_splits regeneration.splits step_event.splits
          recovery.splits)
  qed
qed

lemma create_project_attempts:
  "create_project_with_steps fuel env s given = Some (r, n) \<Longrightarrow> n \<le> 5"
  by (auto simp: create_project_with_steps_def Let_def
      split: if_splits option.splits prod.splits dest: run_steps_attempts)

text \<open>
  C5: the cap stops the regenerations, but no terminal failure follows. On a host
  where every command and every alternative fails and every switch succeeds, the run
  regenerates the steps five times and then returns the status
  \<open>execution_completed\<close>, reporting both steps as successful and none as failed.
\<close>

theorem capped_run_reports_completion:
  "create_project_with_steps 20 failing_env (new_session 0 ''s1'') two_steps
     = Some (ExecutionCompleted 2 2 0, 5) \<and>
   creation_status (ExecutionCompleted 2 2 0) = ''execution_completed''"
  by code_simp

end
